theory Spec2Isabelle
  imports
    Complex_Main
    "HOL-Library.Multiset"
    "HOL-Library.List_Lexorder"
    "HOL-Library.Char_ord"
begin

section \<open>JavaScript numbers\<close>

text \<open>
  The dashboard reads every metric from a JSON file, so a metric value is a finite
  double; it is modelled as the \<^typ>\<open>real\<close> that it denotes, and comparisons of
  doubles are exact. The special values that the code can produce from finite data
  are kept: \<open>Math.min()\<close> of no arguments is \<open>Infinity\<close>, \<open>Math.max()\<close> is
  \<open>-Infinity\<close>, and their difference is \<open>NaN\<close>.

  An arithmetic operation of the runtime is the exact operation below followed by
  the rounding of its finite result to binary64 (\<open>rounded\<close>). The rounding
  function is not part of the repository: it is a parameter \<open>rnd\<close> of the
  classifiers, which gives the nearest double of a real, or an infinity when the
  result overflows. The differences of the rankings table and the mean of the stats
  banner are written without it.
\<close>

datatype number = NaN | NegInfinity | Finite real | Infinity

text \<open>\<open>a < b\<close>: false as soon as one side is \<open>NaN\<close>.\<close>

fun js_less :: "number \<Rightarrow> number \<Rightarrow> bool" where
  "js_less NaN _ = False"
| "js_less _ NaN = False"
| "js_less (Finite a) (Finite b) = (a < b)"
| "js_less NegInfinity NegInfinity = False"
| "js_less NegInfinity _ = True"
| "js_less _ NegInfinity = False"
| "js_less Infinity _ = False"
| "js_less (Finite _) Infinity = True"

text \<open>\<open>a > b\<close> is \<open>b < a\<close>.\<close>

definition js_greater :: "number \<Rightarrow> number \<Rightarrow> bool" where
  "js_greater a b = js_less b a"

fun js_neg :: "number \<Rightarrow> number" where
  "js_neg NaN = NaN"
| "js_neg NegInfinity = Infinity"
| "js_neg (Finite a) = Finite (- a)"
| "js_neg Infinity = NegInfinity"

fun js_add :: "number \<Rightarrow> number \<Rightarrow> number" where
  "js_add NaN _ = NaN"
| "js_add _ NaN = NaN"
| "js_add (Finite a) (Finite b) = Finite (a + b)"
| "js_add Infinity NegInfinity = NaN"
| "js_add NegInfinity Infinity = NaN"
| "js_add Infinity _ = Infinity"
| "js_add _ Infinity = Infinity"
| "js_add NegInfinity _ = NegInfinity"
| "js_add _ NegInfinity = NegInfinity"

definition js_sub :: "number \<Rightarrow> number \<Rightarrow> number" where
  "js_sub a b = js_add a (js_neg b)"

text \<open>
  \<open>a * k\<close> and \<open>a / k\<close> for a finite \<open>k\<close>. An infinite operand keeps or flips its
  sign with the sign of \<open>k\<close>; \<open>Infinity * 0\<close> is \<open>NaN\<close>. Every divisor in the source is
  a positive literal or an array length, so a zero divisor is \<open>+0\<close>.
\<close>

fun js_mul :: "number \<Rightarrow> real \<Rightarrow> number" where
  "js_mul NaN k = NaN"
| "js_mul (Finite a) k = Finite (a * k)"
| "js_mul Infinity k = (if 0 < k then Infinity else if k < 0 then NegInfinity else NaN)"
| "js_mul NegInfinity k = (if 0 < k then NegInfinity else if k < 0 then Infinity else NaN)"

fun js_div :: "number \<Rightarrow> real \<Rightarrow> number" where
  "js_div NaN k = NaN"
| "js_div (Finite a) k =
     (if k \<noteq> 0 then Finite (a / k)
      else if 0 < a then Infinity else if a < 0 then NegInfinity else NaN)"
| "js_div Infinity k = (if 0 \<le> k then Infinity else NegInfinity)"
| "js_div NegInfinity k = (if 0 \<le> k then NegInfinity else Infinity)"

text \<open>The result of an operation as the runtime stores it.\<close>

definition rounded :: "(real \<Rightarrow> number) \<Rightarrow> number \<Rightarrow> number" where
  "rounded rnd x = (case x of Finite r \<Rightarrow> rnd r | _ \<Rightarrow> x)"

text \<open>
  Rounding that changes nothing. It agrees with binary64 wherever the exact result
  is a double, as it is for the integers of the scenarios below.
\<close>

definition exact :: "real \<Rightarrow> number" where
  "exact r = Finite r"

text \<open>\<open>Math.min(...xs)\<close> and \<open>Math.max(...xs)\<close> over finite values.\<close>

fun js_min2 :: "number \<Rightarrow> number \<Rightarrow> number" where
  "js_min2 NaN _ = NaN"
| "js_min2 _ NaN = NaN"
| "js_min2 a b = (if js_less b a then b else a)"

fun js_max2 :: "number \<Rightarrow> number \<Rightarrow> number" where
  "js_max2 NaN _ = NaN"
| "js_max2 _ NaN = NaN"
| "js_max2 a b = (if js_less a b then b else a)"

fun Math_min :: "real list \<Rightarrow> number" where
  "Math_min [] = Infinity"
| "Math_min (x # xs) = js_min2 (Finite x) (Math_min xs)"

fun Math_max :: "real list \<Rightarrow> number" where
  "Math_max [] = NegInfinity"
| "Math_max (x # xs) = js_max2 (Finite x) (Math_max xs)"

section \<open>Data model\<close>

text \<open>
  \<open>mli_data.json\<close>: \<open>{ years: [int], states: { name: { name, timeseries: { year:
  {mli, income, col, surplus} }, ... } } }\<close>. An object is an association list in
  insertion order (the order of \<open>Object.entries\<close> and \<open>Object.values\<close>) whose keys
  are distinct. A missing \<open>timeseries\<close> entry reads as \<open>undefined\<close>, here \<open>None\<close>.
  The \<open>latest\<close> snapshot is read only by the cost-breakdown chart and is left out.

  The repository holds two versions of \<open>MLIApp\<close>. The definitions follow the
  enhanced one, which loads the market data, sorts by the clicked column and computes
  five-year changes. \<open>getMLIColor\<close>, \<open>getSurplusColor\<close>, \<open>getStateRanking\<close>,
  \<open>updateStatsBanner\<close> and \<open>filterTable\<close> are the same in \<open>website/app.js\<close>, whose
  \<open>getIncomeColor\<close> and \<open>getCOLColor\<close> run the same chain of comparisons over five
  bins instead of six.
\<close>

record YearMetrics =
  mli :: real
  income :: real
  col :: real
  surplus :: real

record StateRecord =
  name :: string
  timeseries :: "int \<rightharpoonup> YearMetrics"

record Dataset =
  years :: "int list"
  states :: "(string \<times> StateRecord) list"

text \<open>
  \<open>market_divergence_corrected.json\<close>, reduced to the two sections that the
  application reads: the savings timeline (year, states that can save, paycheck to
  paycheck, in deficit) and the status column of the 2023 snapshot. A section that
  is missing from the file is \<open>None\<close>.
\<close>

record MarketData =
  savings_timeline :: "(int \<times> nat \<times> nat \<times> nat) list option"
  current_snapshot_2023 :: "string list option"

text \<open>
  The fields of \<open>MLIApp\<close> that the decision logic reads. \<open>currentYear\<close> is
  \<open>availableYears[availableYears.length - 1]\<close> after loading, which is
  \<open>undefined\<close> for an empty list of years.
\<close>

record MLIApp =
  data :: Dataset
  marketData :: "MarketData option"
  currentYear :: "int option"
  currentMetric :: string
  availableYears :: "int list"
  currentSort :: string
  sortDirection :: string

datatype js_error = TypeError | Error string

text \<open>\<open>state.timeseries[this.currentYear]\<close>\<close>

definition timeseries_at :: "StateRecord \<Rightarrow> int option \<Rightarrow> YearMetrics option" where
  "timeseries_at s y = (case y of None \<Rightarrow> None | Some k \<Rightarrow> timeseries s k)"

section \<open>Metric classifier\<close>

text \<open>
  The colours of the red-to-green palette, named by the comments of \<open>getMLIColor\<close>:
  deep deficit, deficit, near break-even, small surplus, good surplus, large surplus.
\<close>

definition deepDeficit :: string where "deepDeficit = ''#dc2626''"
definition deficit :: string where "deficit = ''#f97316''"
definition nearBreakEven :: string where "nearBreakEven = ''#eab308''"
definition smallSurplus :: string where "smallSurplus = ''#84cc16''"
definition goodSurplus :: string where "goodSurplus = ''#22c55e''"
definition largeSurplus :: string where "largeSurplus = ''#059669''"

definition getMLIColor :: "real \<Rightarrow> string" where
  "getMLIColor v =
     (if v < 0.9 then ''#dc2626''
      else if v < 0.95 then ''#f97316''
      else if v < 1.0 then ''#eab308''
      else if v < 1.1 then ''#84cc16''
      else if v < 1.2 then ''#22c55e''
      else ''#059669'')"

text \<open>
  The dynamic scales. \<open>yearValues\<close> is
  \<open>Object.values(states).map(s => s.timeseries[year]?.f).filter(v => v !== undefined)\<close>.
  The range, the bin width and every threshold are computed in binary64: each
  operation is the exact operation followed by the rounding \<open>rnd\<close> of the runtime.
\<close>

definition yearValues :: "(YearMetrics \<Rightarrow> real) \<Rightarrow> MLIApp \<Rightarrow> real list" where
  "yearValues f app =
     List.map_filter (\<lambda>s. map_option f (timeseries_at s (currentYear app)))
       (map snd (states (data app)))"

definition getSurplusColor :: "(real \<Rightarrow> number) \<Rightarrow> MLIApp \<Rightarrow> real \<Rightarrow> string" where
  "getSurplusColor rnd app v =
     (let mn = Math_min (yearValues surplus app);
          mx = Math_max (yearValues surplus app);
          rng = rounded rnd (js_sub mx mn);
          bin = rounded rnd (js_div rng 6)
      in if js_less (Finite v) (rounded rnd (js_add mn bin)) then ''#dc2626''
         else if js_less (Finite v) (rounded rnd (js_add mn (rounded rnd (js_mul bin 2))))
           then ''#f97316''
         else if js_less (Finite v) (rounded rnd (js_add mn (rounded rnd (js_mul bin 3))))
           then ''#eab308''
         else if js_less (Finite v) (rounded rnd (js_add mn (rounded rnd (js_mul bin 4))))
           then ''#84cc16''
         else if js_less (Finite v) (rounded rnd (js_add mn (rounded rnd (js_mul bin 5))))
           then ''#22c55e''
         else ''#059669'')"

definition getIncomeColor :: "(real \<Rightarrow> number) \<Rightarrow> MLIApp \<Rightarrow> real \<Rightarrow> string" where
  "getIncomeColor rnd app v =
     (let mn = Math_min (yearValues income app);
          mx = Math_max (yearValues income app);
          rng = rounded rnd (js_sub mx mn);
          bin = rounded rnd (js_div rng 6)
      in if js_less (Finite v) (rounded rnd (js_add mn bin)) then ''#dc2626''
         else if js_less (Finite v) (rounded rnd (js_add mn (rounded rnd (js_mul bin 2))))
           then ''#f97316''
         else if js_less (Finite v) (rounded rnd (js_add mn (rounded rnd (js_mul bin 3))))
           then ''#eab308''
         else if js_less (Finite v) (rounded rnd (js_add mn (rounded rnd (js_mul bin 4))))
           then ''#84cc16''
         else if js_less (Finite v) (rounded rnd (js_add mn (rounded rnd (js_mul bin 5))))
           then ''#22c55e''
         else ''#059669'')"

text \<open>Inverted: a high cost of living is red, a low one green.\<close>

definition getCOLColor :: "(real \<Rightarrow> number) \<Rightarrow> MLIApp \<Rightarrow> real \<Rightarrow> string" where
  "getCOLColor rnd app v =
     (let mn = Math_min (yearValues col app);
          mx = Math_max (yearValues col app);
          rng = rounded rnd (js_sub mx mn);
          bin = rounded rnd (js_div rng 6)
      in if js_greater (Finite v) (rounded rnd (js_sub mx bin)) then ''#dc2626''
         else if js_greater (Finite v) (rounded rnd (js_sub mx (rounded rnd (js_mul bin 2))))
           then ''#f97316''
         else if js_greater (Finite v) (rounded rnd (js_sub mx (rounded rnd (js_mul bin 3))))
           then ''#eab308''
         else if js_greater (Finite v) (rounded rnd (js_sub mx (rounded rnd (js_mul bin 4))))
           then ''#84cc16''
         else if js_greater (Finite v) (rounded rnd (js_sub mx (rounded rnd (js_mul bin 5))))
           then ''#22c55e''
         else ''#059669'')"

text \<open>
  The position of a colour in the red-to-green palette, 0 for the worst bucket (red)
  and 5 for the best (green), in the order in which \<open>getMLIColor\<close> lists them.
\<close>

definition paletteIndex :: "string \<Rightarrow> nat" where
  "paletteIndex c =
     (if c = ''#dc2626'' then 0
      else if c = ''#f97316'' then 1
      else if c = ''#eab308'' then 2
      else if c = ''#84cc16'' then 3
      else if c = ''#22c55e'' then 4
      else 5)"

definition palette :: "string list" where
  "palette = [''#dc2626'', ''#f97316'', ''#eab308'', ''#84cc16'', ''#22c55e'', ''#059669'']"

text \<open>
  The fill callback of \<open>updateMap\<close>: the colour of one state of the map for the
  current year and metric, grey when the state or its year is missing.
\<close>

definition updateMap_fill :: "(real \<Rightarrow> number) \<Rightarrow> MLIApp \<Rightarrow> string \<Rightarrow> string" where
  "updateMap_fill rnd app stateName =
     (case map_of (states (data app)) stateName of
        None \<Rightarrow> ''#ccc''
      | Some stateData \<Rightarrow>
          (case timeseries_at stateData (currentYear app) of
             None \<Rightarrow> ''#ccc''
           | Some yearData \<Rightarrow>
               if currentMetric app = ''mli'' then getMLIColor (mli yearData)
               else if currentMetric app = ''surplus''
                 then getSurplusColor rnd app (surplus yearData)
               else if currentMetric app = ''income''
                 then getIncomeColor rnd app (income yearData)
               else if currentMetric app = ''col'' then getCOLColor rnd app (col yearData)
               else ''#ccc''))"

section \<open>Arrays\<close>

text \<open>
  \<open>Array.prototype.sort(comparefn)\<close> is stable (ECMAScript 2019) and, for a
  consistent comparator, returns the one stable sorted permutation; it is computed
  here by insertion from the right. A comparator result of at most 0 keeps \<open>x\<close>
  in front of \<open>y\<close>.
\<close>

fun sort_insert :: "('a \<Rightarrow> 'a \<Rightarrow> real) \<Rightarrow> 'a \<Rightarrow> 'a list \<Rightarrow> 'a list" where
  "sort_insert cmp x [] = [x]"
| "sort_insert cmp x (y # ys) =
     (if cmp x y \<le> 0 then x # y # ys else y # sort_insert cmp x ys)"

fun js_sort :: "('a \<Rightarrow> 'a \<Rightarrow> real) \<Rightarrow> 'a list \<Rightarrow> 'a list" where
  "js_sort cmp [] = []"
| "js_sort cmp (x # xs) = sort_insert cmp x (js_sort cmp xs)"

text \<open>\<open>findIndex\<close>: the first index whose element satisfies \<open>P\<close>, or -1.\<close>

fun findIndex :: "('a \<Rightarrow> bool) \<Rightarrow> 'a list \<Rightarrow> int" where
  "findIndex P [] = - 1"
| "findIndex P (x # xs) =
     (if P x then 0 else (let i = findIndex P xs in if i < 0 then - 1 else i + 1))"

text \<open>\<open>xs[i]\<close>: \<open>undefined\<close> outside the array.\<close>

definition elem_at :: "'a list \<Rightarrow> int \<Rightarrow> 'a option" where
  "elem_at xs i = (if 0 \<le> i \<and> i < int (length xs) then Some (xs ! nat i) else None)"

text \<open>\<open>xs.slice(0, n)\<close> and \<open>xs.slice(-n)\<close>.\<close>

definition slice_first :: "nat \<Rightarrow> 'a list \<Rightarrow> 'a list" where
  "slice_first n xs = take n xs"

definition slice_last :: "nat \<Rightarrow> 'a list \<Rightarrow> 'a list" where
  "slice_last n xs = drop (length xs - n) xs"

text \<open>\<open>xs.map(f)\<close> for a callback that may throw: the first exception ends the map.\<close>

fun map_throw :: "('a \<Rightarrow> js_error + 'b) \<Rightarrow> 'a list \<Rightarrow> js_error + 'b list" where
  "map_throw f [] = Inr []"
| "map_throw f (x # xs) =
     (case f x of
        Inl e \<Rightarrow> Inl e
      | Inr y \<Rightarrow> (case map_throw f xs of Inl e \<Rightarrow> Inl e | Inr ys \<Rightarrow> Inr (y # ys)))"

section \<open>Ranking engine\<close>

text \<open>
  \<open>getStateRanking\<close>: the entries \<open>{name, mli}\<close> of all states for the current
  year (a pair here), sorted by \<open>b.mli - a.mli\<close>; the rank is the index of the
  state's name plus one. Reading \<open>.mli\<close> of a missing year throws a TypeError.
\<close>

definition rankingEntry :: "MLIApp \<Rightarrow> string \<times> StateRecord \<Rightarrow> js_error + (string \<times> real)" where
  "rankingEntry app e =
     (case timeseries_at (snd e) (currentYear app) of
        None \<Rightarrow> Inl TypeError
      | Some yearData \<Rightarrow> Inr (fst e, mli yearData))"

definition sortedStatesData :: "MLIApp \<Rightarrow> js_error + (string \<times> real) list" where
  "sortedStatesData app =
     (case map_throw (rankingEntry app) (states (data app)) of
        Inl e \<Rightarrow> Inl e
      | Inr statesData \<Rightarrow> Inr (js_sort (\<lambda>a b. snd b - snd a) statesData))"

definition getStateRanking :: "MLIApp \<Rightarrow> string \<Rightarrow> js_error + int" where
  "getStateRanking app stateName =
     (case sortedStatesData app of
        Inl e \<Rightarrow> Inl e
      | Inr statesData \<Rightarrow> Inr (findIndex (\<lambda>s. fst s = stateName) statesData + 1))"

text \<open>
  The ordering that the specification asks for: value descending, and equal values
  by state name ascending.
\<close>

definition ties_by_name_ascending :: "(string \<times> real) list \<Rightarrow> bool" where
  "ties_by_name_ascending ss =
     sorted_wrt (\<lambda>a b. snd b < snd a \<or> (snd a = snd b \<and> fst a \<le> fst b)) ss"

section \<open>Rankings table\<close>

text \<open>
  One row of the rankings table: the metrics of the current year, the change of the
  MLI since the first year, and the change over five years. The five-year change
  starts at 0 and is computed only when the year five positions before the current
  one exists and the state has data for it.
\<close>

record Row =
  row_name :: string
  row_mli :: real
  row_surplus :: real
  row_income :: real
  row_col :: real
  row_change :: real
  row_change5yr :: real

definition tableRow :: "MLIApp \<Rightarrow> string \<times> StateRecord \<Rightarrow> js_error + Row" where
  "tableRow app e =
     (case timeseries_at (snd e) (currentYear app) of
        None \<Rightarrow> Inl TypeError
      | Some yearData \<Rightarrow>
          (case timeseries_at (snd e) (elem_at (availableYears app) 0) of
             None \<Rightarrow> Inl TypeError
           | Some firstYearData \<Rightarrow>
               (let change = mli yearData - mli firstYearData;
                    fiveYearIndex =
                      findIndex (\<lambda>y. Some y = currentYear app) (availableYears app) - 5;
                    change5yr =
                      (if 0 \<le> fiveYearIndex then
                         (case timeseries_at (snd e) (elem_at (availableYears app) fiveYearIndex) of
                            Some fiveYearData \<Rightarrow> mli yearData - mli fiveYearData
                          | None \<Rightarrow> 0)
                       else 0)
                in Inr \<lparr>row_name = fst e, row_mli = mli yearData, row_surplus = surplus yearData,
                        row_income = income yearData, row_col = col yearData,
                        row_change = change, row_change5yr = change5yr\<rparr>)))"

text \<open>
  \<open>sortStates\<close>: the \<open>switch\<close> on \<open>currentSort\<close> picks the compared field
  (\<open>sortField\<close>); \<open>name\<close> compares with \<open>localeCompare\<close>, a function of the
  runtime's collation that is a parameter here; an unknown key compares as 0.
\<close>

definition sortField :: "string \<Rightarrow> (Row \<Rightarrow> real) option" where
  "sortField key =
     (if key = ''rank'' then Some row_mli
      else if key = ''mli'' then Some row_mli
      else if key = ''surplus'' then Some row_surplus
      else if key = ''income'' then Some row_income
      else if key = ''col'' then Some row_col
      else if key = ''change5yr'' then Some row_change5yr
      else if key = ''change'' then Some row_change
      else None)"

definition sortStates :: "(string \<Rightarrow> string \<Rightarrow> real) \<Rightarrow> MLIApp \<Rightarrow> Row list \<Rightarrow> Row list" where
  "sortStates localeCompare app rows =
     (let direction = (if sortDirection app = ''asc'' then - 1 else 1)
      in js_sort
           (\<lambda>a b.
              if currentSort app = ''name''
              then direction * localeCompare (row_name a) (row_name b)
              else (case sortField (currentSort app) of
                      None \<Rightarrow> 0
                    | Some f \<Rightarrow> direction * (f b - f a)))
           rows)"

text \<open>
  \<open>updateRankingsTable\<close>: the displayed rows with their rank cell, for the tab
  \<open>all\<close>, \<open>top10\<close> or \<open>bottom10\<close>.
\<close>

definition updateRankingsTable ::
  "(string \<Rightarrow> string \<Rightarrow> real) \<Rightarrow> MLIApp \<Rightarrow> string \<Rightarrow> js_error + (int \<times> Row) list" where
  "updateRankingsTable localeCompare app tab =
     (case map_throw (tableRow app) (states (data app)) of
        Inl e \<Rightarrow> Inl e
      | Inr rows \<Rightarrow>
          (let statesData = sortStates localeCompare app rows;
               displayData =
                 (if tab = ''top10'' then slice_first 10 statesData
                  else if tab = ''bottom10'' then rev (slice_last 10 statesData)
                  else statesData)
           in Inr (map (\<lambda>(index, state).
                          (if tab = ''bottom10'' then int (length statesData) - int index
                           else int index + 1, state))
                     (enumerate 0 displayData))))"

section \<open>Insights\<close>

text \<open>
  \<open>updateInsights\<close>: an entry \<open>{name, mli, change}\<close> per state (a triple here),
  where the change is the five-year change and falls back to the change since the
  first year when the current year has no year five positions before it.
\<close>

definition insightEntry :: "MLIApp \<Rightarrow> string \<times> StateRecord \<Rightarrow> js_error + (string \<times> real \<times> real)" where
  "insightEntry app e =
     (case timeseries_at (snd e) (currentYear app) of
        None \<Rightarrow> Inl TypeError
      | Some yearData \<Rightarrow>
          (let currentYearIndex = findIndex (\<lambda>y. Some y = currentYear app) (availableYears app);
               fiveYearIndex = currentYearIndex - 5
           in if 0 \<le> fiveYearIndex then
                (case timeseries_at (snd e) (elem_at (availableYears app) fiveYearIndex) of
                   Some fiveYearData \<Rightarrow> Inr (fst e, mli yearData, mli yearData - mli fiveYearData)
                 | None \<Rightarrow> Inr (fst e, mli yearData, 0))
              else
                (case timeseries_at (snd e) (elem_at (availableYears app) 0) of
                   None \<Rightarrow> Inl TypeError
                 | Some firstYearData \<Rightarrow>
                     Inr (fst e, mli yearData, mli yearData - mli firstYearData))))"

record Insights =
  best :: "(string \<times> real \<times> real) list"
  worst :: "(string \<times> real \<times> real) list"
  improved :: "(string \<times> real \<times> real) list"
  declined :: "(string \<times> real \<times> real) list"

definition updateInsights :: "MLIApp \<Rightarrow> js_error + Insights" where
  "updateInsights app =
     (case map_throw (insightEntry app) (states (data app)) of
        Inl e \<Rightarrow> Inl e
      | Inr entries \<Rightarrow>
          (let statesData = js_sort (\<lambda>a b. fst (snd b) - fst (snd a)) entries
           in Inr \<lparr>best = slice_first 5 statesData,
                   worst = rev (slice_last 4 statesData),
                   improved =
                     slice_first 5 (js_sort (\<lambda>a b. snd (snd b) - snd (snd a)) statesData),
                   declined =
                     slice_first 4 (js_sort (\<lambda>a b. snd (snd a) - snd (snd b)) statesData)\<rparr>))"

text \<open>
  \<open>createTrendInsight\<close>: the two years that the message compares, the change of
  the MLI between them and whether the message reads as improving. The percentage
  and the wording of the message are formatting and are not modelled.
\<close>

record TrendInsight =
  fromYear :: "int option"
  toYear :: "int option"
  trendChange :: real
  improving :: bool

definition createTrendInsight :: "MLIApp \<Rightarrow> StateRecord \<Rightarrow> js_error + TrendInsight" where
  "createTrendInsight app stateData =
     (let currentYearIndex = findIndex (\<lambda>y. Some y = currentYear app) (availableYears app);
          fiveYearIndex = currentYearIndex - 5
      in if 0 \<le> fiveYearIndex then
           (let fiveYearsAgo = elem_at (availableYears app) fiveYearIndex
            in case timeseries_at stateData fiveYearsAgo of
                 None \<Rightarrow> Inl TypeError
               | Some past \<Rightarrow>
                   (case timeseries_at stateData (currentYear app) of
                      None \<Rightarrow> Inl TypeError
                    | Some cur \<Rightarrow>
                        Inr \<lparr>fromYear = fiveYearsAgo, toYear = currentYear app,
                             trendChange = mli cur - mli past,
                             improving = (0 < mli cur - mli past)\<rparr>))
         else
           (let firstYear = elem_at (availableYears app) 0;
                lastYear = elem_at (availableYears app) (int (length (availableYears app)) - 1)
            in case timeseries_at stateData firstYear of
                 None \<Rightarrow> Inl TypeError
               | Some firstData \<Rightarrow>
                   (case timeseries_at stateData lastYear of
                      None \<Rightarrow> Inl TypeError
                    | Some lastData \<Rightarrow>
                        Inr \<lparr>fromYear = firstYear, toYear = lastYear,
                             trendChange = mli lastData - mli firstData,
                             improving = (0 < mli lastData - mli firstData)\<rparr>)))"

section \<open>Stats banner\<close>

text \<open>
  \<open>updateStatsBanner\<close>: the number of states in surplus, at break-even and in
  deficit for the current year, and the mean MLI (before \<open>toFixed\<close>), which is
  \<open>0 / 0\<close> for a dataset without states.
\<close>

record StatsBanner =
  surplusStates :: nat
  breakEvenStates :: nat
  deficitStates :: nat
  nationalMLI :: number

definition bannerEntry :: "MLIApp \<Rightarrow> StateRecord \<Rightarrow> js_error + (string \<times> real)" where
  "bannerEntry app state =
     (case timeseries_at state (currentYear app) of
        None \<Rightarrow> Inl TypeError
      | Some yearData \<Rightarrow> Inr (name state, mli yearData))"

definition updateStatsBanner :: "MLIApp \<Rightarrow> js_error + StatsBanner" where
  "updateStatsBanner app =
     (case map_throw (bannerEntry app) (map snd (states (data app))) of
        Inl e \<Rightarrow> Inl e
      | Inr statesData \<Rightarrow>
          Inr \<lparr>surplusStates = length (filter (\<lambda>s. 1.05 < snd s) statesData),
               breakEvenStates = length (filter (\<lambda>s. 0.95 \<le> snd s \<and> snd s \<le> 1.05) statesData),
               deficitStates = length (filter (\<lambda>s. snd s < 0.95) statesData),
               nationalMLI =
                 js_div (Finite (sum_list (map snd statesData))) (real (length statesData))\<rparr>)"

section \<open>Table filter\<close>

text \<open>
  A rendered row of the rankings table: its rank cell, its state cell, the row
  object behind the other cells and its \<open>style.display\<close>, which is empty for a
  shown row and \<open>none\<close> for a hidden one. \<open>updateRankingsTable\<close> renders every
  row shown.
\<close>

record TableRow =
  rank_cell :: int
  state_cell :: string
  cells :: Row
  display :: string

definition renderRows :: "(int \<times> Row) list \<Rightarrow> TableRow list" where
  "renderRows rs =
     map (\<lambda>(rank, state).
            \<lparr>rank_cell = rank, state_cell = row_name state, cells = state, display = []\<rparr>) rs"

text \<open>
  \<open>toLowerCase\<close> on the ASCII letters (state names and search terms are taken to
  be ASCII), and \<open>s.includes(t)\<close>: \<open>t\<close> occurs in \<open>s\<close> at some position.
\<close>

definition toLowerCase_char :: "char \<Rightarrow> char" where
  "toLowerCase_char c =
     (if CHR ''A'' \<le> c \<and> c \<le> CHR ''Z'' then char_of (of_char c + (32 :: nat)) else c)"

definition toLowerCase :: "string \<Rightarrow> string" where
  "toLowerCase s = map toLowerCase_char s"

fun startsWith :: "string \<Rightarrow> string \<Rightarrow> bool" where
  "startsWith s [] = True"
| "startsWith [] (c # t) = False"
| "startsWith (a # s) (c # t) = (a = c \<and> startsWith s t)"

fun js_includes :: "string \<Rightarrow> string \<Rightarrow> bool" where
  "js_includes [] t = (t = [])"
| "js_includes (a # s) t = (startsWith (a # s) t \<or> js_includes s t)"

text \<open>The empty string is written \<open>[]\<close>.\<close>

definition filterTable :: "string \<Rightarrow> TableRow list \<Rightarrow> TableRow list" where
  "filterTable searchTerm rows =
     (let trm = toLowerCase searchTerm
      in map (\<lambda>row.
                (let stateName = toLowerCase (state_cell row)
                 in row\<lparr>display := (if js_includes stateName trm then [] else ''none'')\<rparr>))
           rows)"

text \<open>The rows of the table that the page shows.\<close>

definition visibleRows :: "TableRow list \<Rightarrow> TableRow list" where
  "visibleRows rows = filter (\<lambda>row. display row \<noteq> ''none'') rows"

section \<open>Startup\<close>

text \<open>
  What a startup run meets: the outcome of fetching and parsing the two data files,
  whether the map topology that \<open>createMap\<close> requests arrives, and whether the page
  holds the canvas of the savings timeline. The other elements that the code looks
  up are taken to exist, so the steps that only touch the page do not throw.
\<close>

record Startup =
  mli_data_json :: "js_error + Dataset"
  market_divergence_json :: "js_error + MarketData"
  states_topology_json :: bool
  savingsTimeline_canvas :: bool

datatype view =
  MapView | StatsBannerView | RankingsTableView | InsightsView | StateSelectorsView
  | LegendView | SavingsTimelineView | SavingsDistributionView

text \<open>
  The content of the \<open>main\<close> element: the views drawn into it, or the error
  section that \<open>showError\<close> writes over all of it.
\<close>

datatype main_content = Rendered "view list" | ErrorSection string

definition showError :: "string \<Rightarrow> main_content" where
  "showError message = ErrorSection message"

definition loadData :: "Startup \<Rightarrow> js_error + MLIApp" where
  "loadData env =
     (case mli_data_json env of
        Inl e \<Rightarrow> Inl (Error ''Data loading failed'')
      | Inr d \<Rightarrow>
          Inr \<lparr>data = d, marketData = None,
               currentYear = elem_at (years d) (int (length (years d)) - 1),
               currentMetric = ''mli'', availableYears = years d, currentSort = ''mli'',
               sortDirection = ''desc''\<rparr>)"

text \<open>
  \<open>loadMarketData\<close> catches its own failure (\<open>Non-critical, continue without this
  data\<close>) and leaves \<open>marketData\<close> unset.
\<close>

definition loadMarketData :: "Startup \<Rightarrow> MLIApp \<Rightarrow> MLIApp" where
  "loadMarketData env app =
     (case market_divergence_json env of
        Inl e \<Rightarrow> app
      | Inr m \<Rightarrow> app\<lparr>marketData := Some m\<rparr>)"

text \<open>The map paths are drawn when the topology arrives; its failure is not caught.\<close>

definition createMap :: "Startup \<Rightarrow> view list" where
  "createMap env = (if states_topology_json env then [MapView] else [])"

definition createSavingsTimeline :: "Startup \<Rightarrow> MLIApp \<Rightarrow> view list" where
  "createSavingsTimeline env app =
     (case marketData app of
        None \<Rightarrow> []
      | Some m \<Rightarrow>
          (case savings_timeline m of
             None \<Rightarrow> []
           | Some timeline \<Rightarrow> if savingsTimeline_canvas env then [SavingsTimelineView] else []))"

definition populateSavingsDistribution :: "MLIApp \<Rightarrow> view list" where
  "populateSavingsDistribution app =
     (case marketData app of
        None \<Rightarrow> []
      | Some m \<Rightarrow>
          (case current_snapshot_2023 m of
             None \<Rightarrow> []
           | Some snapshot \<Rightarrow> [SavingsDistributionView]))"

text \<open>
  \<open>init\<close>: the steps run in order inside one \<open>try\<close>; an exception of any step
  ends in \<open>showError\<close>.
\<close>

definition init :: "(string \<Rightarrow> string \<Rightarrow> real) \<Rightarrow> Startup \<Rightarrow> main_content" where
  "init localeCompare env =
     (case loadData env of
        Inl e \<Rightarrow> showError ''Failed to load data. Please refresh the page.''
      | Inr loaded \<Rightarrow>
          (let app = loadMarketData env loaded
           in case updateStatsBanner app of
                Inl e \<Rightarrow> showError ''Failed to load data. Please refresh the page.''
              | Inr banner \<Rightarrow>
                  (case updateRankingsTable localeCompare app ''all'' of
                     Inl e \<Rightarrow> showError ''Failed to load data. Please refresh the page.''
                   | Inr table \<Rightarrow>
                       (case updateInsights app of
                          Inl e \<Rightarrow> showError ''Failed to load data. Please refresh the page.''
                        | Inr insights \<Rightarrow>
                            Rendered
                              (createMap env
                               @ [StatsBannerView, RankingsTableView, InsightsView,
                                  StateSelectorsView, LegendView]
                               @ createSavingsTimeline env app
                               @ populateSavingsDistribution app)))))"

text \<open>The full view: every view of the page.\<close>

definition full_view :: "view list" where
  "full_view =
     [MapView, StatsBannerView, RankingsTableView, InsightsView, StateSelectorsView,
      LegendView, SavingsTimelineView, SavingsDistributionView]"

section \<open>Scenarios\<close>

text \<open>
  Small datasets on which the functions are evaluated: a state with one or more
  years of data derived from its MLI, and an application state over a dataset.
\<close>

definition metrics_with_mli :: "real \<Rightarrow> YearMetrics" where
  "metrics_with_mli v = \<lparr>mli = v, income = v * 50000, col = 50000, surplus = (v - 1) * 50000\<rparr>"

definition state_with_mli :: "string \<Rightarrow> (int \<times> real) list \<Rightarrow> string \<times> StateRecord" where
  "state_with_mli n ys =
     (n, \<lparr>name = n, timeseries = map_of (map (\<lambda>(y, v). (y, metrics_with_mli v)) ys)\<rparr>)"

definition app_with_states :: "int list \<Rightarrow> int \<Rightarrow> (string \<times> StateRecord) list \<Rightarrow> MLIApp" where
  "app_with_states ys y es =
     \<lparr>data = \<lparr>years = ys, states = es\<rparr>, marketData = None, currentYear = Some y,
      currentMetric = ''mli'', availableYears = ys, currentSort = ''mli'',
      sortDirection = ''desc''\<rparr>"

text \<open>The scenario of the specification: A at 1.2, B at 0.8 and C at 1.0 in 2023.\<close>

definition scenario_app :: MLIApp where
  "scenario_app = app_with_states [2023] 2023
     [state_with_mli ''A'' [(2023, 1.2)], state_with_mli ''B'' [(2023, 0.8)],
      state_with_mli ''C'' [(2023, 1.0)]]"

text \<open>Two states with the same MLI, listed by the dataset as B, then A.\<close>

definition tie_app :: MLIApp where
  "tie_app = app_with_states [2023] 2023
     [state_with_mli ''B'' [(2023, 1.0)], state_with_mli ''A'' [(2023, 1.0)]]"

text \<open>
  Three years of data with the last one selected: no year lies five positions
  before it.
\<close>

definition early_state :: "string \<times> StateRecord" where
  "early_state = state_with_mli ''X'' [(2018, 1.0), (2019, 1.05), (2020, 1.1)]"

definition early_app :: MLIApp where
  "early_app = app_with_states [2018, 2019, 2020] 2020 [early_state]"

text \<open>Rows of the table with a tie between B and A, and a comparison of names by code unit.\<close>

definition tie_rows :: "Row list" where
  "tie_rows =
     [\<lparr>row_name = ''B'', row_mli = 1, row_surplus = 0, row_income = 50000, row_col = 50000,
       row_change = 0, row_change5yr = 0\<rparr>,
      \<lparr>row_name = ''C'', row_mli = 1.2, row_surplus = 10000, row_income = 60000, row_col = 50000,
       row_change = 0, row_change5yr = 0\<rparr>,
      \<lparr>row_name = ''A'', row_mli = 1, row_surplus = 0, row_income = 50000, row_col = 50000,
       row_change = 0, row_change5yr = 0\<rparr>]"

definition codeunit_compare :: "string \<Rightarrow> string \<Rightarrow> real" where
  "codeunit_compare a b = (if a < b then - 1 else if a = b then 0 else 1)"

text \<open>The tie rows as rendered rows of the table, ranked 1 to 3 and all shown.\<close>

definition table_rows :: "TableRow list" where
  "table_rows = renderRows (zip [1, 2, 3] tie_rows)"

text \<open>
  Startup runs: the market file fails to load, the dataset fails to load, and both
  files load.
\<close>

definition market_failed_env :: Startup where
  "market_failed_env =
     \<lparr>mli_data_json = Inr (data scenario_app), market_divergence_json = Inl (Error ''404''),
      states_topology_json = True, savingsTimeline_canvas = True\<rparr>"

definition data_failed_env :: Startup where
  "data_failed_env =
     \<lparr>mli_data_json = Inl (Error ''404''),
      market_divergence_json = Inr \<lparr>savings_timeline = Some [], current_snapshot_2023 = Some []\<rparr>,
      states_topology_json = True, savingsTimeline_canvas = True\<rparr>"

definition all_loaded_env :: Startup where
  "all_loaded_env =
     \<lparr>mli_data_json = Inr (data scenario_app),
      market_divergence_json =
        Inr \<lparr>savings_timeline = Some [(2023, 1, 1, 1)],
             current_snapshot_2023 = Some [''Surplus'', ''Deficit'', ''Paycheck-to-Paycheck'']\<rparr>,
      states_topology_json = True, savingsTimeline_canvas = True\<rparr>"

text \<open>
  States given by MLI, income and cost of living: a year with three different values
  of every metric, chosen so that the range, the bin width and the thresholds are
  integers; a year in which all states agree; and a dataset without states.
\<close>

definition state_with_metrics ::
  "string \<Rightarrow> int \<Rightarrow> real \<Rightarrow> real \<Rightarrow> real \<Rightarrow> string \<times> StateRecord" where
  "state_with_metrics n y m inc c =
     (n, \<lparr>name = n,
          timeseries = [y \<mapsto> \<lparr>mli = m, income = inc, col = c, surplus = inc - c\<rparr>]\<rparr>)"

definition spread_app :: MLIApp where
  "spread_app = app_with_states [2023] 2023
     [state_with_metrics ''P'' 2023 1.4 60000 42000, state_with_metrics ''Q'' 2023 1.0 48000 48000,
      state_with_metrics ''R'' 2023 0.8 42000 54000]"

definition equal_app :: MLIApp where
  "equal_app = app_with_states [2023] 2023
     [state_with_metrics ''P'' 2023 1.25 50000 40000,
      state_with_metrics ''Q'' 2023 1.25 50000 40000]"

definition empty_app :: MLIApp where
  "empty_app = app_with_states [2023] 2023 []"

definition equal_surplus_app :: MLIApp where
  "equal_surplus_app = equal_app\<lparr>currentMetric := ''surplus''\<rparr>"

text \<open>A dataset in which state B has no data for the last year, and a run that loads it.\<close>

definition missing_year_data :: Dataset where
  "missing_year_data =
     \<lparr>years = [2022, 2023],
      states = [state_with_mli ''A'' [(2022, 1.0), (2023, 1.2)], state_with_mli ''B'' [(2022, 0.9)]]\<rparr>"

definition missing_year_env :: Startup where
  "missing_year_env =
     \<lparr>mli_data_json = Inr missing_year_data,
      market_divergence_json = Inr \<lparr>savings_timeline = Some [], current_snapshot_2023 = Some []\<rparr>,
      states_topology_json = True, savingsTimeline_canvas = True\<rparr>"

section \<open>Properties of the classifier\<close>

lemmas bucket_defs =
  deepDeficit_def deficit_def nearBreakEven_def smallSurplus_def goodSurplus_def
  largeSurplus_def

text \<open>
  Claim C1. For every MLI value \<open>v\<close> the classifier returns the bucket fixed by the
  thresholds, independently of any data: below 0.90 deep deficit, from 0.90 up to
  0.95 deficit, from 0.95 up to 1.00 near break-even, from 1.00 up to 1.10 small
  surplus, from 1.10 up to 1.20 good surplus, and large surplus from 1.20 on. The six
  buckets are pairwise different, 0.94 is a deficit and 1.15 a good surplus.
\<close>

theorem getMLIColor_fixed_buckets:
  "(v < 0.90 \<longrightarrow> getMLIColor v = deepDeficit) \<and>
   (0.90 \<le> v \<and> v < 0.95 \<longrightarrow> getMLIColor v = deficit) \<and>
   (0.95 \<le> v \<and> v < 1.00 \<longrightarrow> getMLIColor v = nearBreakEven) \<and>
   (1.00 \<le> v \<and> v < 1.10 \<longrightarrow> getMLIColor v = smallSurplus) \<and>
   (1.10 \<le> v \<and> v < 1.20 \<longrightarrow> getMLIColor v = goodSurplus) \<and>
   (1.20 \<le> v \<longrightarrow> getMLIColor v = largeSurplus) \<and>
   distinct [deepDeficit, deficit, nearBreakEven, smallSurplus, goodSurplus, largeSurplus] \<and>
   getMLIColor 0.94 = deficit \<and> getMLIColor 1.15 = goodSurplus"
  by (simp add: getMLIColor_def bucket_defs)

theorem getMLIColor_fixed_buckets_witness:
  "getMLIColor 0.85 = deepDeficit \<and> getMLIColor 0.90 = deficit \<and>
   getMLIColor 0.95 = nearBreakEven \<and> getMLIColor 1.00 = smallSurplus \<and>
   getMLIColor 1.10 = goodSurplus \<and> getMLIColor 1.20 = largeSurplus"
  using getMLIColor_fixed_buckets [of "0.85"] getMLIColor_fixed_buckets [of "0.90"]
    getMLIColor_fixed_buckets [of "0.95"] getMLIColor_fixed_buckets [of "1.00"]
    getMLIColor_fixed_buckets [of "1.10"] getMLIColor_fixed_buckets [of "1.20"]
  by simp

section \<open>Properties of the dynamic scales\<close>

lemma Math_min_Finite: "xs \<noteq> [] \<Longrightarrow> Math_min xs = Finite (Min (set xs))"
proof (induction xs)
  case Nil then show ?case by simp
next
  case (Cons x xs)
  show ?case
  proof (cases "xs = []")
    case True then show ?thesis by simp
  next
    case False
    with Cons.IH have "Math_min xs = Finite (Min (set xs))" by simp
    then have "Math_min (x # xs) = Finite (min x (Min (set xs)))" by (simp add: min_def)
    moreover have "Min (set (x # xs)) = min x (Min (set xs))" using False by simp
    ultimately show ?thesis by simp
  qed
qed

lemma Math_max_Finite: "xs \<noteq> [] \<Longrightarrow> Math_max xs = Finite (Max (set xs))"
proof (induction xs)
  case Nil then show ?case by simp
next
  case (Cons x xs)
  show ?case
  proof (cases "xs = []")
    case True then show ?thesis by simp
  next
    case False
    with Cons.IH have "Math_max xs = Finite (Max (set xs))" by simp
    then have "Math_max (x # xs) = Finite (max x (Max (set xs)))" by (simp add: max_def)
    moreover have "Max (set (x # xs)) = max x (Max (set xs))" using False by simp
    ultimately show ?thesis by simp
  qed
qed

lemma paletteIndex_palette: "map paletteIndex palette = [0, 1, 2, 3, 4, 5]"
  by (simp add: palette_def paletteIndex_def)

lemma getSurplusColor_palette: "getSurplusColor rnd app v \<in> set palette"
  by (simp add: getSurplusColor_def Let_def palette_def)

lemma getIncomeColor_palette: "getIncomeColor rnd app v \<in> set palette"
  by (simp add: getIncomeColor_def Let_def palette_def)

lemma getCOLColor_palette: "getCOLColor rnd app v \<in> set palette"
  by (simp add: getCOLColor_def Let_def palette_def)

lemma js_less_left_mono: "js_less (Finite w) t \<Longrightarrow> v \<le> w \<Longrightarrow> js_less (Finite v) t"
  by (cases t) auto

lemma js_greater_left_mono: "js_greater (Finite v) t \<Longrightarrow> v \<le> w \<Longrightarrow> js_greater (Finite w) t"
  by (cases t) (auto simp: js_greater_def)

lemma paletteIndex_cascade:
  "paletteIndex (if b1 then ''#dc2626'' else if b2 then ''#f97316'' else if b3 then ''#eab308''
                 else if b4 then ''#84cc16'' else if b5 then ''#22c55e'' else ''#059669'')
     = (if b1 then 0 else if b2 then 1 else if b3 then 2 else if b4 then 3
        else if b5 then 4 else 5)"
  by (simp add: paletteIndex_def)

lemma cascade_mono:
  assumes "c1 \<Longrightarrow> b1" "c2 \<Longrightarrow> b2" "c3 \<Longrightarrow> b3" "c4 \<Longrightarrow> b4" "c5 \<Longrightarrow> b5"
  shows "(if b1 then 0 else if b2 then 1 else if b3 then 2 else if b4 then 3
          else if b5 then 4 else (5::nat))
       \<le> (if c1 then 0 else if c2 then 1 else if c3 then 2 else if c4 then 3
          else if c5 then 4 else (5::nat))"
  using assms by auto

lemma getSurplusColor_mono:
  assumes "v \<le> w"
  shows "paletteIndex (getSurplusColor rnd app v) \<le> paletteIndex (getSurplusColor rnd app w)"
  unfolding getSurplusColor_def Let_def paletteIndex_cascade
  by (rule cascade_mono) (erule js_less_left_mono [OF _ assms])+

lemma getIncomeColor_mono:
  assumes "v \<le> w"
  shows "paletteIndex (getIncomeColor rnd app v) \<le> paletteIndex (getIncomeColor rnd app w)"
  unfolding getIncomeColor_def Let_def paletteIndex_cascade
  by (rule cascade_mono) (erule js_less_left_mono [OF _ assms])+

lemma getCOLColor_mono:
  assumes "v \<le> w"
  shows "paletteIndex (getCOLColor rnd app w) \<le> paletteIndex (getCOLColor rnd app v)"
  unfolding getCOLColor_def Let_def paletteIndex_cascade
  by (rule cascade_mono) (erule js_greater_left_mono [OF _ assms])+

lemma spread_values:
  "yearValues surplus spread_app = [18000, 0, - 12000]"
  "yearValues income spread_app = [60000, 48000, 42000]"
  "yearValues col spread_app = [42000, 48000, 54000]"
  by (simp_all add: yearValues_def List.map_filter_def timeseries_at_def spread_app_def
      app_with_states_def state_with_metrics_def)

lemma spread_colours:
  "map (getSurplusColor exact spread_app) [- 12000, 0, 18000] = [''#dc2626'', ''#eab308'', ''#059669'']"
  "map (getIncomeColor exact spread_app) [42000, 48000, 60000] = [''#dc2626'', ''#eab308'', ''#059669'']"
  "map (getCOLColor exact spread_app) [42000, 48000, 54000] = [''#059669'', ''#84cc16'', ''#dc2626'']"
  by (simp_all add: getSurplusColor_def getIncomeColor_def getCOLColor_def Let_def spread_values
      rounded_def exact_def js_sub_def js_greater_def)

text \<open>
  Claim C6. When the values of a metric for the year have a minimum below their
  maximum, each dynamic classifier gives every value one colour of the palette, and
  the assignment is monotonic, however the thresholds are rounded: for surplus and
  income a higher value never gets a lower position in the red-to-green palette, and
  for the cost of living a higher cost never gets a higher position.
\<close>

theorem dynamic_scales_monotone:
  "(js_less (Math_min (yearValues surplus app)) (Math_max (yearValues surplus app)) \<and> v \<le> w \<longrightarrow>
      getSurplusColor rnd app v \<in> set palette \<and>
      paletteIndex (getSurplusColor rnd app v) \<le> paletteIndex (getSurplusColor rnd app w)) \<and>
   (js_less (Math_min (yearValues income app)) (Math_max (yearValues income app)) \<and> v \<le> w \<longrightarrow>
      getIncomeColor rnd app v \<in> set palette \<and>
      paletteIndex (getIncomeColor rnd app v) \<le> paletteIndex (getIncomeColor rnd app w)) \<and>
   (js_less (Math_min (yearValues col app)) (Math_max (yearValues col app)) \<and> v \<le> w \<longrightarrow>
      getCOLColor rnd app v \<in> set palette \<and>
      paletteIndex (getCOLColor rnd app w) \<le> paletteIndex (getCOLColor rnd app v)) \<and>
   map paletteIndex palette = [0, 1, 2, 3, 4, 5]"
proof -
  have s: "js_less (Math_min (yearValues surplus app)) (Math_max (yearValues surplus app)) \<and> v \<le> w \<longrightarrow>
      getSurplusColor rnd app v \<in> set palette \<and>
      paletteIndex (getSurplusColor rnd app v) \<le> paletteIndex (getSurplusColor rnd app w)"
    by (simp add: getSurplusColor_palette getSurplusColor_mono)
  have i: "js_less (Math_min (yearValues income app)) (Math_max (yearValues income app)) \<and> v \<le> w \<longrightarrow>
      getIncomeColor rnd app v \<in> set palette \<and>
      paletteIndex (getIncomeColor rnd app v) \<le> paletteIndex (getIncomeColor rnd app w)"
    by (simp add: getIncomeColor_palette getIncomeColor_mono)
  have c: "js_less (Math_min (yearValues col app)) (Math_max (yearValues col app)) \<and> v \<le> w \<longrightarrow>
      getCOLColor rnd app v \<in> set palette \<and>
      paletteIndex (getCOLColor rnd app w) \<le> paletteIndex (getCOLColor rnd app v)"
    by (simp add: getCOLColor_palette getCOLColor_mono)
  show ?thesis by (intro conjI) (fact s i c paletteIndex_palette)+
qed

theorem dynamic_scales_monotone_witness:
  "js_less (Math_min (yearValues surplus spread_app)) (Math_max (yearValues surplus spread_app)) \<and>
   paletteIndex (getSurplusColor exact spread_app (- 12000))
     \<le> paletteIndex (getSurplusColor exact spread_app 18000) \<and>
   map (getSurplusColor exact spread_app) [- 12000, 0, 18000] = [''#dc2626'', ''#eab308'', ''#059669''] \<and>
   js_less (Math_min (yearValues income spread_app)) (Math_max (yearValues income spread_app)) \<and>
   paletteIndex (getIncomeColor exact spread_app 42000)
     \<le> paletteIndex (getIncomeColor exact spread_app 60000) \<and>
   map (getIncomeColor exact spread_app) [42000, 48000, 60000] = [''#dc2626'', ''#eab308'', ''#059669''] \<and>
   js_less (Math_min (yearValues col spread_app)) (Math_max (yearValues col spread_app)) \<and>
   paletteIndex (getCOLColor exact spread_app 54000)
     \<le> paletteIndex (getCOLColor exact spread_app 42000) \<and>
   map (getCOLColor exact spread_app) [42000, 48000, 54000] = [''#059669'', ''#84cc16'', ''#dc2626'']"
proof -
  have s: "js_less (Math_min (yearValues surplus spread_app)) (Math_max (yearValues surplus spread_app))"
    and i: "js_less (Math_min (yearValues income spread_app)) (Math_max (yearValues income spread_app))"
    and c: "js_less (Math_min (yearValues col spread_app)) (Math_max (yearValues col spread_app))"
    by (simp_all add: spread_values)
  have o: "(- 12000 :: real) \<le> 18000" "(42000 :: real) \<le> 60000" "(42000 :: real) \<le> 54000"
    by simp_all
  have ms: "paletteIndex (getSurplusColor exact spread_app (- 12000))
              \<le> paletteIndex (getSurplusColor exact spread_app 18000)"
    using dynamic_scales_monotone [of spread_app "- 12000" 18000 exact, THEN conjunct1] s o(1)
    by blast
  have mi: "paletteIndex (getIncomeColor exact spread_app 42000)
              \<le> paletteIndex (getIncomeColor exact spread_app 60000)"
    using dynamic_scales_monotone [of spread_app 42000 60000 exact, THEN conjunct2, THEN conjunct1]
      i o(2) by blast
  have mc: "paletteIndex (getCOLColor exact spread_app 54000)
              \<le> paletteIndex (getCOLColor exact spread_app 42000)"
    using dynamic_scales_monotone [of spread_app 42000 54000 exact,
        THEN conjunct2, THEN conjunct2, THEN conjunct1] c o(3) by blast
  show ?thesis
    by (intro conjI) (fact s i c ms mi mc spread_colours)+
qed

lemma yearValues_member:
  assumes "map_of (states (data app)) n = Some st" "timeseries_at st (currentYear app) = Some yd"
  shows "f yd \<in> set (yearValues f app)"
proof -
  from assms(1) have "(n, st) \<in> set (states (data app))" by (rule map_of_SomeD)
  then have "st \<in> set (map snd (states (data app)))" by force
  with assms(2) show ?thesis
    by (force simp: yearValues_def List.map_filter_def)
qed

lemma empty_scale:
  "yearValues surplus app = [] \<Longrightarrow> getSurplusColor rnd app v = ''#059669''"
  "yearValues income app = [] \<Longrightarrow> getIncomeColor rnd app v = ''#059669''"
  "yearValues col app = [] \<Longrightarrow> getCOLColor rnd app v = ''#059669''"
  by (simp_all add: getSurplusColor_def getIncomeColor_def getCOLColor_def Let_def js_sub_def
      js_greater_def rounded_def)

lemma singleton_min_max:
  assumes "set xs = {m}"
  shows "Math_min xs = Finite m" "Math_max xs = Finite m"
proof -
  from assms have "xs \<noteq> []" by auto
  then show "Math_min xs = Finite m" "Math_max xs = Finite m"
    by (simp_all add: Math_min_Finite Math_max_Finite assms)
qed

lemma equal_scale:
  assumes "rnd 0 = Finite 0" "rnd m = Finite m"
  shows "set (yearValues surplus app) = {m} \<Longrightarrow>
           getSurplusColor rnd app v = (if v < m then ''#dc2626'' else ''#059669'')"
    and "set (yearValues income app) = {m} \<Longrightarrow>
           getIncomeColor rnd app v = (if v < m then ''#dc2626'' else ''#059669'')"
    and "set (yearValues col app) = {m} \<Longrightarrow>
           getCOLColor rnd app v = (if m < v then ''#dc2626'' else ''#059669'')"
  by (simp_all add: getSurplusColor_def getIncomeColor_def getCOLColor_def Let_def
      singleton_min_max js_sub_def js_greater_def rounded_def assms)

lemma equal_fill:
  assumes st: "map_of (states (data app)) n = Some st"
    and yd: "timeseries_at st (currentYear app) = Some yd"
    and r: "rnd 0 = Finite 0" "rnd m = Finite m"
    and m: "(currentMetric app = ''surplus'' \<and> set (yearValues surplus app) = {m}) \<or>
            (currentMetric app = ''income'' \<and> set (yearValues income app) = {m}) \<or>
            (currentMetric app = ''col'' \<and> set (yearValues col app) = {m})"
  shows "updateMap_fill rnd app n = ''#059669''"
proof -
  from m consider
      (s) "currentMetric app = ''surplus''" "set (yearValues surplus app) = {m}"
    | (i) "currentMetric app = ''income''" "set (yearValues income app) = {m}"
    | (c) "currentMetric app = ''col''" "set (yearValues col app) = {m}"
    by blast
  then show ?thesis
  proof cases
    case s
    from yearValues_member [OF st yd, of surplus] s(2) have "surplus yd = m" by simp
    with s show ?thesis by (simp add: updateMap_fill_def st yd equal_scale [OF r])
  next
    case i
    from yearValues_member [OF st yd, of income] i(2) have "income yd = m" by simp
    with i show ?thesis by (simp add: updateMap_fill_def st yd equal_scale [OF r])
  next
    case c
    from yearValues_member [OF st yd, of col] c(2) have "col yd = m" by simp
    with c show ?thesis by (simp add: updateMap_fill_def st yd equal_scale [OF r])
  qed
qed

lemma equal_values:
  "yearValues surplus equal_surplus_app = [10000, 10000]"
  "yearValues income equal_surplus_app = [50000, 50000]"
  "yearValues col equal_surplus_app = [40000, 40000]"
  "yearValues surplus empty_app = []"
  "yearValues income empty_app = []"
  "yearValues col empty_app = []"
  by (simp_all add: yearValues_def List.map_filter_def timeseries_at_def equal_surplus_app_def
      equal_app_def empty_app_def app_with_states_def state_with_metrics_def)

text \<open>
  Claim C7, as amended. With no value for the year the thresholds are \<open>NaN\<close>,
  every comparison is false and every value gets the last colour of the chain,
  059669. When all values of the year are equal to \<open>m\<close> (with 0 and \<open>m\<close> doubles,
  which rounding leaves unchanged), the bin width is 0 and every threshold is \<open>m\<close>:
  for surplus and income a value below \<open>m\<close> gets the first colour dc2626 and every
  other value 059669; for the cost of living a value above \<open>m\<close> gets dc2626 and
  every other value 059669. The readings of the states, which all equal \<open>m\<close>, get
  059669, also from the fill callback. The only division is by the literal 6, and
  the result is always a colour of the palette.
\<close>

theorem degenerate_scale_buckets:
  "(yearValues surplus app = [] \<longrightarrow> getSurplusColor rnd app v = ''#059669'') \<and>
   (yearValues income app = [] \<longrightarrow> getIncomeColor rnd app v = ''#059669'') \<and>
   (yearValues col app = [] \<longrightarrow> getCOLColor rnd app v = ''#059669'') \<and>
   (set (yearValues surplus app) = {m} \<and> rnd 0 = Finite 0 \<and> rnd m = Finite m \<longrightarrow>
      getSurplusColor rnd app v = (if v < m then ''#dc2626'' else ''#059669'')) \<and>
   (set (yearValues income app) = {m} \<and> rnd 0 = Finite 0 \<and> rnd m = Finite m \<longrightarrow>
      getIncomeColor rnd app v = (if v < m then ''#dc2626'' else ''#059669'')) \<and>
   (set (yearValues col app) = {m} \<and> rnd 0 = Finite 0 \<and> rnd m = Finite m \<longrightarrow>
      getCOLColor rnd app v = (if m < v then ''#dc2626'' else ''#059669'')) \<and>
   (map_of (states (data app)) n = Some st \<and> timeseries_at st (currentYear app) = Some yd \<and>
    rnd 0 = Finite 0 \<and> rnd m = Finite m \<and>
    ((currentMetric app = ''surplus'' \<and> set (yearValues surplus app) = {m}) \<or>
     (currentMetric app = ''income'' \<and> set (yearValues income app) = {m}) \<or>
     (currentMetric app = ''col'' \<and> set (yearValues col app) = {m}))
      \<longrightarrow> updateMap_fill rnd app n = ''#059669'') \<and>
   getSurplusColor rnd app v \<in> set palette \<and> getIncomeColor rnd app v \<in> set palette \<and>
   getCOLColor rnd app v \<in> set palette"
proof -
  have e: "yearValues surplus app = [] \<longrightarrow> getSurplusColor rnd app v = ''#059669''"
    "yearValues income app = [] \<longrightarrow> getIncomeColor rnd app v = ''#059669''"
    "yearValues col app = [] \<longrightarrow> getCOLColor rnd app v = ''#059669''"
    by (simp_all add: empty_scale)
  have q1: "set (yearValues surplus app) = {m} \<and> rnd 0 = Finite 0 \<and> rnd m = Finite m \<longrightarrow>
      getSurplusColor rnd app v = (if v < m then ''#dc2626'' else ''#059669'')"
    using equal_scale(1) [of rnd m app v] by blast
  have q2: "set (yearValues income app) = {m} \<and> rnd 0 = Finite 0 \<and> rnd m = Finite m \<longrightarrow>
      getIncomeColor rnd app v = (if v < m then ''#dc2626'' else ''#059669'')"
    using equal_scale(2) [of rnd m app v] by blast
  have q3: "set (yearValues col app) = {m} \<and> rnd 0 = Finite 0 \<and> rnd m = Finite m \<longrightarrow>
      getCOLColor rnd app v = (if m < v then ''#dc2626'' else ''#059669'')"
    using equal_scale(3) [of rnd m app v] by blast
  have f: "map_of (states (data app)) n = Some st \<and> timeseries_at st (currentYear app) = Some yd \<and>
    rnd 0 = Finite 0 \<and> rnd m = Finite m \<and>
    ((currentMetric app = ''surplus'' \<and> set (yearValues surplus app) = {m}) \<or>
     (currentMetric app = ''income'' \<and> set (yearValues income app) = {m}) \<or>
     (currentMetric app = ''col'' \<and> set (yearValues col app) = {m}))
      \<longrightarrow> updateMap_fill rnd app n = ''#059669''"
    using equal_fill [of app n st yd rnd m] by (intro impI) (elim conjE, assumption+)
  show ?thesis
    by (intro conjI)
      (fact e q1 q2 q3 f getSurplusColor_palette getIncomeColor_palette getCOLColor_palette)+
qed

theorem degenerate_scale_buckets_witness:
  "yearValues surplus empty_app = [] \<and> getSurplusColor exact empty_app 0 = ''#059669'' \<and>
   yearValues income empty_app = [] \<and> getIncomeColor exact empty_app 0 = ''#059669'' \<and>
   yearValues col empty_app = [] \<and> getCOLColor exact empty_app 0 = ''#059669'' \<and>
   exact 0 = Finite 0 \<and> exact 10000 = Finite 10000 \<and> exact 50000 = Finite 50000 \<and>
   exact 40000 = Finite 40000 \<and>
   set (yearValues surplus equal_surplus_app) = {10000} \<and>
   getSurplusColor exact equal_surplus_app 10000 = ''#059669'' \<and>
   getSurplusColor exact equal_surplus_app 9000 = ''#dc2626'' \<and>
   set (yearValues income equal_surplus_app) = {50000} \<and>
   getIncomeColor exact equal_surplus_app 50000 = ''#059669'' \<and>
   set (yearValues col equal_surplus_app) = {40000} \<and>
   getCOLColor exact equal_surplus_app 40000 = ''#059669'' \<and>
   getCOLColor exact equal_surplus_app 41000 = ''#dc2626'' \<and>
   updateMap_fill exact equal_surplus_app ''P'' = ''#059669'' \<and>
   updateMap_fill exact equal_surplus_app ''Q'' = ''#059669''"
proof -
  note E = degenerate_scale_buckets [of empty_app exact 0]
  have r: "exact 0 = Finite 0" "exact 10000 = Finite 10000" "exact 50000 = Finite 50000"
    "exact 40000 = Finite 40000"
    by (simp_all add: exact_def)
  have s: "set (yearValues surplus equal_surplus_app) = {10000}"
    and i: "set (yearValues income equal_surplus_app) = {50000}"
    and c: "set (yearValues col equal_surplus_app) = {40000}"
    by (simp_all add: equal_values)
  have e1: "getSurplusColor exact empty_app 0 = ''#059669''"
    using E [THEN conjunct1] equal_values(4) by blast
  have e2: "getIncomeColor exact empty_app 0 = ''#059669''"
    using E [THEN conjunct2, THEN conjunct1] equal_values(5) by blast
  have e3: "getCOLColor exact empty_app 0 = ''#059669''"
    using E [THEN conjunct2, THEN conjunct2, THEN conjunct1] equal_values(6) by blast
  have "getSurplusColor exact equal_surplus_app 10000
          = (if (10000 :: real) < 10000 then ''#dc2626'' else ''#059669'')"
    using degenerate_scale_buckets [of equal_surplus_app exact 10000 10000,
        THEN conjunct2, THEN conjunct2, THEN conjunct2, THEN conjunct1] s r(1,2) by blast
  then have q1: "getSurplusColor exact equal_surplus_app 10000 = ''#059669''" by simp
  have "getSurplusColor exact equal_surplus_app 9000
          = (if (9000 :: real) < 10000 then ''#dc2626'' else ''#059669'')"
    using degenerate_scale_buckets [of equal_surplus_app exact 9000 10000,
        THEN conjunct2, THEN conjunct2, THEN conjunct2, THEN conjunct1] s r(1,2) by blast
  then have q1': "getSurplusColor exact equal_surplus_app 9000 = ''#dc2626''" by simp
  have "getIncomeColor exact equal_surplus_app 50000
          = (if (50000 :: real) < 50000 then ''#dc2626'' else ''#059669'')"
    using degenerate_scale_buckets [of equal_surplus_app exact 50000 50000,
        THEN conjunct2, THEN conjunct2, THEN conjunct2, THEN conjunct2, THEN conjunct1]
      i r(1,3) by blast
  then have q2: "getIncomeColor exact equal_surplus_app 50000 = ''#059669''" by simp
  have "getCOLColor exact equal_surplus_app 40000
          = (if (40000 :: real) < 40000 then ''#dc2626'' else ''#059669'')"
    using degenerate_scale_buckets [of equal_surplus_app exact 40000 40000,
        THEN conjunct2, THEN conjunct2, THEN conjunct2, THEN conjunct2, THEN conjunct2,
        THEN conjunct1] c r(1,4) by blast
  then have q3: "getCOLColor exact equal_surplus_app 40000 = ''#059669''" by simp
  have "getCOLColor exact equal_surplus_app 41000
          = (if (40000 :: real) < 41000 then ''#dc2626'' else ''#059669'')"
    using degenerate_scale_buckets [of equal_surplus_app exact 41000 40000,
        THEN conjunct2, THEN conjunct2, THEN conjunct2, THEN conjunct2, THEN conjunct2,
        THEN conjunct1] c r(1,4) by blast
  then have q3': "getCOLColor exact equal_surplus_app 41000 = ''#dc2626''" by simp
  have st: "map_of (states (data equal_surplus_app)) ''P''
              = Some (snd (state_with_metrics ''P'' 2023 1.25 50000 40000))"
    "map_of (states (data equal_surplus_app)) ''Q''
       = Some (snd (state_with_metrics ''Q'' 2023 1.25 50000 40000))"
    "timeseries_at (snd (state_with_metrics ''P'' 2023 1.25 50000 40000))
       (currentYear equal_surplus_app)
       = Some \<lparr>mli = 1.25, income = 50000, col = 40000, surplus = 50000 - 40000\<rparr>"
    "timeseries_at (snd (state_with_metrics ''Q'' 2023 1.25 50000 40000))
       (currentYear equal_surplus_app)
       = Some \<lparr>mli = 1.25, income = 50000, col = 40000, surplus = 50000 - 40000\<rparr>"
    "currentMetric equal_surplus_app = ''surplus''"
    by (simp_all add: equal_surplus_app_def equal_app_def app_with_states_def
        state_with_metrics_def timeseries_at_def)
  have f1: "updateMap_fill exact equal_surplus_app ''P'' = ''#059669''"
    using degenerate_scale_buckets [of equal_surplus_app exact _ 10000 "''P''" _ _,
        THEN conjunct2, THEN conjunct2, THEN conjunct2, THEN conjunct2, THEN conjunct2,
        THEN conjunct2, THEN conjunct1] st(1,3,5) s r(1,2)
    by blast
  have f2: "updateMap_fill exact equal_surplus_app ''Q'' = ''#059669''"
    using degenerate_scale_buckets [of equal_surplus_app exact _ 10000 "''Q''" _ _,
        THEN conjunct2, THEN conjunct2, THEN conjunct2, THEN conjunct2, THEN conjunct2,
        THEN conjunct2, THEN conjunct1] st(2,4,5) s r(1,2)
    by blast
  show ?thesis
    by (intro conjI) (fact equal_values(4-6) e1 e2 e3 r s i c q1 q1' q2 q3 q3' f1 f2)+
qed

text \<open>
  Queried values do not all get the same bucket: with every surplus of the year at
  10000, the value 9999 is dc2626 and the value 10001 is 059669.
\<close>

theorem degenerate_scale_buckets_counterexample:
  "yearValues surplus equal_surplus_app = [10000, 10000] \<and>
   getSurplusColor exact equal_surplus_app 9999 = ''#dc2626'' \<and>
   getSurplusColor exact equal_surplus_app 10001 = ''#059669'' \<and>
   getSurplusColor exact equal_surplus_app 9999 \<noteq> getSurplusColor exact equal_surplus_app 10001"
  by (simp add: getSurplusColor_def Let_def equal_values rounded_def exact_def js_sub_def)

section \<open>Sorting, searching and mapping\<close>

lemma js_sort_eq_sort_key:
  assumes "\<And>a b. cmp a b \<le> 0 \<longleftrightarrow> f a \<le> (f b :: real)"
  shows "js_sort cmp xs = sort_key f xs"
proof -
  have ins: "sort_insert cmp x ys = insort_key f x ys" for x ys
    by (induction ys) (simp_all add: assms)
  show ?thesis by (induction xs) (simp_all add: ins)
qed

lemma js_sort_desc: "js_sort (\<lambda>a b. key b - key a) xs = sort_key (\<lambda>x. - key x) xs"
  by (rule js_sort_eq_sort_key) simp

lemma mset_js_sort_desc: "mset (js_sort (\<lambda>a b. key b - key a) xs) = mset xs"
  by (simp add: js_sort_desc)

lemma sorted_js_sort_desc: "sorted_wrt (\<lambda>a b. key b \<le> key a) (js_sort (\<lambda>a b. key b - (key a :: real)) xs)"
proof -
  have "sorted (map (\<lambda>x. - key x) (sort_key (\<lambda>x. - key x) xs))" by (rule sorted_sort_key)
  then show ?thesis by (simp add: js_sort_desc sorted_map)
qed

lemma stable_js_sort_desc:
  "filter (\<lambda>y. key y = k) (js_sort (\<lambda>a b. key b - key a) xs) = filter (\<lambda>y. key y = (k::real)) xs"
  using sort_key_stable [of "\<lambda>x. - key x" "- k" xs] by (simp add: js_sort_desc)

lemma findIndex_bounds: "- 1 \<le> findIndex P xs \<and> findIndex P xs < int (length xs)"
  by (induction xs) (auto simp: Let_def)

lemma findIndex_absent: "(\<forall>x \<in> set xs. \<not> P x) \<Longrightarrow> findIndex P xs = - 1"
  by (induction xs) (auto simp: Let_def)

lemma findIndex_present: "0 \<le> findIndex P xs \<longleftrightarrow> (\<exists>x \<in> set xs. P x)"
  by (induction xs) (auto simp: Let_def)

lemma findIndex_nth:
  "distinct (map f xs) \<Longrightarrow> i < length xs \<Longrightarrow> findIndex (\<lambda>s. f s = f (xs ! i)) xs = int i"
proof (induction xs arbitrary: i)
  case Nil then show ?case by simp
next
  case (Cons x xs)
  show ?case
  proof (cases i)
    case 0 then show ?thesis by simp
  next
    case (Suc j)
    with Cons.prems have j: "j < length xs" and d: "distinct (map f xs)" and nx: "f x \<notin> f ` set xs" by auto
    from j nx have "f x \<noteq> f (xs ! j)" by (metis imageI nth_mem)
    with Cons.IH [OF d j] Suc show ?thesis by (simp add: Let_def)
  qed
qed

lemma map_throw_Inr_iff:
  "map_throw f xs = Inr ys \<longleftrightarrow> map f xs = map Inr ys"
proof (induction xs arbitrary: ys)
  case Nil then show ?case by auto
next
  case (Cons x xs)
  show ?case
  proof (cases "f x")
    case (Inl e) then show ?thesis by auto
  next
    case fx: (Inr y)
    show ?thesis
    proof (cases "map_throw f xs")
      case (Inl e)
      have "map f xs \<noteq> map Inr zs" for zs using Cons.IH [of zs] Inl by simp
      with fx Inl show ?thesis by (cases ys) auto
    next
      case (Inr zs)
      with Cons.IH [of zs] have "map f xs = map Inr zs" by simp
      with fx Inr show ?thesis by (cases ys) auto
    qed
  qed
qed

lemma map_throw_Inl_iff:
  "(\<exists>e. map_throw f xs = Inl e) \<longleftrightarrow> (\<exists>x \<in> set xs. \<exists>e. f x = Inl e)"
  by (induction xs) (auto split: sum.splits)

lemma map_throw_ok:
  assumes "\<forall>x \<in> set xs. \<exists>y. f x = Inr y"
  shows "\<exists>ys. map_throw f xs = Inr ys"
proof (cases "map_throw f xs")
  case (Inl e)
  then have "\<exists>x \<in> set xs. \<exists>e. f x = Inl e" using map_throw_Inl_iff [of f xs] by blast
  with assms show ?thesis by auto
next
  case (Inr ys) then show ?thesis by blast
qed

lemma upto_from_one: "map (\<lambda>i. int i + 1) [0..<n] = [1..int n]"
proof (induction n)
  case 0 then show ?case by simp
next
  case (Suc n)
  have "[1..int (Suc n)] = [1..int n] @ [int n + 1]"
    using upto_rec2 [of 1 "int (Suc n)"] by (simp add: add.commute)
  with Suc show ?case by simp
qed

lemma findIndex_ranks:
  assumes "distinct (map f xs)"
  shows "map (\<lambda>n. findIndex (\<lambda>s. f s = n) xs + 1) (map f xs) = [1..int (length xs)]"
proof -
  have "map (\<lambda>n. findIndex (\<lambda>s. f s = n) xs + 1) (map f xs) = map (\<lambda>i. int i + 1) [0..<length xs]"
    by (rule nth_equalityI) (simp_all add: findIndex_nth [OF assms])
  then show ?thesis by (simp add: upto_from_one)
qed

lemma findIndex_zero: "findIndex P xs = 0 \<Longrightarrow> xs \<noteq> [] \<and> P (hd xs)"
  by (cases xs) (auto simp: Let_def split: if_splits)

lemma sorted_desc_hd:
  "sorted_wrt (\<lambda>a b. key b \<le> (key a :: real)) xs \<Longrightarrow> x \<in> set xs \<Longrightarrow> key x \<le> key (hd xs)"
  by (cases xs) auto

section \<open>Properties of the ranking\<close>

lemmas scenario_defs = scenario_app_def tie_app_def app_with_states_def state_with_mli_def
  metrics_with_mli_def

lemma rankingEntry_Inr:
  "rankingEntry app e = Inr x \<longleftrightarrow>
     (\<exists>yd. timeseries_at (snd e) (currentYear app) = Some yd \<and> x = (fst e, mli yd))"
  by (auto simp: rankingEntry_def split: option.splits)

lemma rankingEntry_names:
  "map (rankingEntry app) es = map Inr sd \<Longrightarrow> map fst sd = map fst es"
proof (induction es arbitrary: sd)
  case Nil then show ?case by simp
next
  case (Cons e es)
  then show ?case by (cases sd) (auto simp: rankingEntry_Inr)
qed

lemma sortedStatesData_Inr:
  assumes "\<forall>e \<in> set (states (data app)). timeseries_at (snd e) (currentYear app) \<noteq> None"
  obtains sd where "map (rankingEntry app) (states (data app)) = map Inr sd"
    and "sortedStatesData app = Inr (js_sort (\<lambda>a b. snd b - snd a) sd)"
proof -
  have "\<not> (\<exists>e. map_throw (rankingEntry app) (states (data app)) = Inl e)"
    unfolding map_throw_Inl_iff using assms by (auto simp: rankingEntry_def split: option.splits)
  then obtain sd where sd: "map_throw (rankingEntry app) (states (data app)) = Inr sd"
    by (cases "map_throw (rankingEntry app) (states (data app))") auto
  then have "map (rankingEntry app) (states (data app)) = map Inr sd"
    by (simp add: map_throw_Inr_iff)
  moreover from sd have "sortedStatesData app = Inr (js_sort (\<lambda>a b. snd b - snd a) sd)"
    by (simp add: sortedStatesData_def)
  ultimately show ?thesis by (rule that)
qed

lemma sortStates_desc:
  assumes "sortField (currentSort app) = Some f" "sortDirection app \<noteq> ''asc''"
  shows "sortStates lc app rows = js_sort (\<lambda>a b. f b - f a) rows"
proof -
  from assms(1) have "currentSort app \<noteq> ''name''" by (auto simp: sortField_def)
  with assms show ?thesis by (simp add: sortStates_def)
qed

text \<open>
  Claim C2. When the state names are distinct and every state has data for the
  selected year, the ranks of the states are a permutation of 1..N: as a multiset
  they are exactly the numbers from 1 to N, so no rank repeats and none is missing.
  The state of rank 1 has the highest MLI. In the scenario A = 1.2, B = 0.8, C = 1.0
  the ranks are A 1, C 2, B 3.
\<close>

theorem getStateRanking_permutation:
  assumes names: "distinct (map fst (states (data app)))"
      and years: "\<forall>e \<in> set (states (data app)). timeseries_at (snd e) (currentYear app) \<noteq> None"
  shows "(\<exists>ranks. map (getStateRanking app) (map fst (states (data app))) = map Inr ranks \<and>
            mset ranks = mset [1 .. int (length (states (data app)))]) \<and>
         (\<forall>n st yd n' st' yd'.
            (n, st) \<in> set (states (data app)) \<and> timeseries_at st (currentYear app) = Some yd \<and>
            getStateRanking app n = Inr 1 \<and>
            (n', st') \<in> set (states (data app)) \<and> timeseries_at st' (currentYear app) = Some yd'
            \<longrightarrow> mli yd' \<le> mli yd) \<and>
         map (getStateRanking scenario_app) [''A'', ''C'', ''B''] = [Inr 1, Inr 2, Inr 3]"
proof -
  let ?es = "states (data app)"
  from years obtain sd where sd: "map (rankingEntry app) ?es = map Inr sd"
    and sorted: "sortedStatesData app = Inr (js_sort (\<lambda>a b. snd b - snd a) sd)"
    by (rule sortedStatesData_Inr)
  let ?ss = "js_sort (\<lambda>a b. snd b - snd a) sd"
  let ?r = "\<lambda>n. findIndex (\<lambda>s. fst s = n) ?ss + 1"
  have rank: "getStateRanking app n = Inr (?r n)" for n
    by (simp add: getStateRanking_def sorted)
  have sd_names: "map fst sd = map fst ?es" using sd by (rule rankingEntry_names)
  have perm: "mset ?ss = mset sd" by (rule mset_js_sort_desc)
  then have names_perm: "mset (map fst ?ss) = mset (map fst ?es)"
    by (metis sd_names mset_map)
  with names have dist: "distinct (map fst ?ss)"
    by (metis mset_eq_imp_distinct_iff)
  have len: "length ?ss = length ?es"
    by (metis perm sd_names length_map size_mset)
  have "mset (map ?r (map fst ?es)) = image_mset ?r (mset (map fst ?es))" by (rule mset_map)
  also have "\<dots> = image_mset ?r (mset (map fst ?ss))" by (simp only: names_perm)
  also have "\<dots> = mset (map ?r (map fst ?ss))" by (rule mset_map [symmetric])
  also have "\<dots> = mset [1 .. int (length ?es)]"
    using findIndex_ranks [OF dist] by (simp add: len)
  finally have "mset (map ?r (map fst ?es)) = mset [1 .. int (length ?es)]" .
  moreover have "map (getStateRanking app) (map fst ?es) = map Inr (map ?r (map fst ?es))"
    by (simp add: rank)
  ultimately have part1: "\<exists>ranks. map (getStateRanking app) (map fst ?es) = map Inr ranks \<and>
            mset ranks = mset [1 .. int (length ?es)]" by blast
  have part2: "mli yd' \<le> mli yd"
    if a: "(n, st) \<in> set ?es" "timeseries_at st (currentYear app) = Some yd"
      "getStateRanking app n = Inr 1"
      "(n', st') \<in> set ?es" "timeseries_at st' (currentYear app) = Some yd'"
    for n st yd n' st' yd'
  proof -
    have in_sd: "(fst e, mli y) \<in> set sd"
      if "e \<in> set ?es" "timeseries_at (snd e) (currentYear app) = Some y" for e y
    proof -
      from that have "rankingEntry app e = Inr (fst e, mli y)" by (simp add: rankingEntry_Inr)
      with that(1) have "Inr (fst e, mli y) \<in> set (map (rankingEntry app) ?es)" by force
      then show ?thesis by (auto simp: sd)
    qed
    from a(3) have "findIndex (\<lambda>s. fst s = n) ?ss = 0" by (simp add: rank)
    then have ne: "?ss \<noteq> []" and hd: "fst (hd ?ss) = n" by (auto dest: findIndex_zero)
    have "(n, mli yd) \<in> set ?ss" using in_sd [of "(n, st)" yd] a(1,2) perm
      by (metis fst_conv snd_conv set_mset_mset)
    moreover have "hd ?ss \<in> set ?ss" using ne by simp
    ultimately have "hd ?ss = (n, mli yd)" using dist hd
      by (metis eq_key_imp_eq_value prod.collapse)
    moreover have "(n', mli yd') \<in> set ?ss" using in_sd [of "(n', st')" yd'] a(4,5) perm
      by (metis fst_conv snd_conv set_mset_mset)
    ultimately show ?thesis
      using sorted_desc_hd [OF sorted_js_sort_desc, of "(n', mli yd')" snd sd] by simp
  qed
  have part3: "map (getStateRanking scenario_app) [''A'', ''C'', ''B''] = [Inr 1, Inr 2, Inr 3]"
    by (simp add: getStateRanking_def sortedStatesData_def rankingEntry_def timeseries_at_def
        scenario_app_def app_with_states_def state_with_mli_def metrics_with_mli_def)
  from part1 part2 part3 show ?thesis by blast
qed

theorem getStateRanking_permutation_witness:
  "distinct (map fst (states (data scenario_app))) \<and>
   list_all (\<lambda>e. timeseries_at (snd e) (currentYear scenario_app) \<noteq> None)
     (states (data scenario_app)) \<and>
   (\<exists>ranks. map (getStateRanking scenario_app) (map fst (states (data scenario_app))) = map Inr ranks \<and>
            mset ranks = mset [1 .. int (length (states (data scenario_app)))])"
proof -
  have h1: "distinct (map fst (states (data scenario_app)))"
    by (simp add: scenario_defs)
  have h2: "\<forall>e \<in> set (states (data scenario_app)). timeseries_at (snd e) (currentYear scenario_app) \<noteq> None"
    by (simp add: scenario_defs timeseries_at_def)
  from getStateRanking_permutation [OF h1 h2] h1 h2 show ?thesis
    unfolding list_all_iff by blast
qed

text \<open>
  Claim C3, as amended. The ranking is in descending order of the metric value, and
  states with equal values keep the order in which the dataset lists them: the
  comparator has no second key and the sort is stable. The table behaves in the same
  way for every numeric sort key in descending direction. The order is therefore a
  function of the dataset with the order of its state entries.
\<close>

theorem ranking_order_stable:
  "(sortedStatesData app = Inr ss \<longrightarrow>
      sorted_wrt (\<lambda>a b. snd b \<le> snd a) ss \<and>
      (\<exists>sd. map_throw (rankingEntry app) (states (data app)) = Inr sd \<and>
            map fst sd = map fst (states (data app)) \<and>
            (\<forall>v. filter (\<lambda>s. snd s = v) ss = filter (\<lambda>s. snd s = v) sd))) \<and>
   (sortField (currentSort app) = Some f \<and> sortDirection app \<noteq> ''asc'' \<longrightarrow>
      sorted_wrt (\<lambda>a b. f b \<le> f a) (sortStates lc app rows) \<and>
      (\<forall>v. filter (\<lambda>r. f r = v) (sortStates lc app rows) = filter (\<lambda>r. f r = v) rows))"
proof -
  have part1: "sorted_wrt (\<lambda>a b. snd b \<le> snd a) ss \<and>
      (\<exists>sd. map_throw (rankingEntry app) (states (data app)) = Inr sd \<and>
            map fst sd = map fst (states (data app)) \<and>
            (\<forall>v. filter (\<lambda>s. snd s = v) ss = filter (\<lambda>s. snd s = v) sd))"
    if "sortedStatesData app = Inr ss"
  proof -
    from that obtain sd where sd: "map_throw (rankingEntry app) (states (data app)) = Inr sd"
      and ss: "ss = js_sort (\<lambda>a b. snd b - snd a) sd"
      by (auto simp: sortedStatesData_def split: sum.splits)
    from sd have "map fst sd = map fst (states (data app))"
      by (simp add: map_throw_Inr_iff rankingEntry_names)
    with sd ss show ?thesis
      by (simp add: sorted_js_sort_desc stable_js_sort_desc)
  qed
  have part2: "sorted_wrt (\<lambda>a b. f b \<le> f a) (sortStates lc app rows) \<and>
      (\<forall>v. filter (\<lambda>r. f r = v) (sortStates lc app rows) = filter (\<lambda>r. f r = v) rows)"
    if "sortField (currentSort app) = Some f" "sortDirection app \<noteq> ''asc''"
    using that by (simp add: sortStates_desc sorted_js_sort_desc stable_js_sort_desc)
  from part1 part2 show ?thesis by blast
qed

theorem ranking_order_stable_witness:
  "sortedStatesData tie_app = Inr [(''B'', 1), (''A'', 1)] \<and>
   sortField (currentSort tie_app) = Some row_mli \<and> sortDirection tie_app \<noteq> ''asc'' \<and>
   sorted_wrt (\<lambda>a b. snd b \<le> snd a) [(''B'', 1::real), (''A'', 1)] \<and>
   map row_name (sortStates codeunit_compare tie_app tie_rows) = [''C'', ''B'', ''A''] \<and>
   sorted_wrt (\<lambda>a b. row_mli b \<le> row_mli a) (sortStates codeunit_compare tie_app tie_rows) \<and>
   filter (\<lambda>r. row_mli r = 1) (sortStates codeunit_compare tie_app tie_rows) = filter (\<lambda>r. row_mli r = 1) tie_rows"
proof -
  have h1: "sortedStatesData tie_app = Inr [(''B'', 1), (''A'', 1)]"
    by (simp add: sortedStatesData_def rankingEntry_def timeseries_at_def scenario_defs)
  have h2: "sortField (currentSort tie_app) = Some row_mli \<and> sortDirection tie_app \<noteq> ''asc''"
    by (simp add: sortField_def scenario_defs)
  have h3: "map row_name (sortStates codeunit_compare tie_app tie_rows) = [''C'', ''B'', ''A'']"
    by (simp add: sortStates_def sortField_def scenario_defs tie_rows_def)
  from ranking_order_stable [of tie_app "[(''B'', 1), (''A'', 1)]" row_mli codeunit_compare tie_rows] h1 h2 h3
  show ?thesis by blast
qed

text \<open>
  The ordering by name that the specification asks for fails on the code: B and A
  have the same MLI, the dataset lists B first, and B is ranked before A.
\<close>

theorem ranking_ties_counterexample:
  "sortedStatesData tie_app = Inr [(''B'', 1), (''A'', 1)] \<and>
   \<not> ties_by_name_ascending [(''B'', 1), (''A'', 1)] \<and>
   getStateRanking tie_app ''B'' = Inr 1 \<and> getStateRanking tie_app ''A'' = Inr 2"
  by (simp add: getStateRanking_def sortedStatesData_def rankingEntry_def timeseries_at_def
        scenario_defs ties_by_name_ascending_def)

text \<open>
  Claim C4, as amended. When every state has data for the selected year, the rank of
  a state of the dataset is an integer from 1 to N, and the rank of a name that the
  dataset does not hold is 0: \<open>findIndex\<close> answers -1 and no error is raised.
\<close>

theorem getStateRanking_range_or_zero:
  assumes years: "\<forall>e \<in> set (states (data app)). timeseries_at (snd e) (currentYear app) \<noteq> None"
  shows "(n \<in> fst ` set (states (data app)) \<longrightarrow>
            (\<exists>r. getStateRanking app n = Inr r \<and> 1 \<le> r \<and> r \<le> int (length (states (data app))))) \<and>
         (n \<notin> fst ` set (states (data app)) \<longrightarrow> getStateRanking app n = Inr 0)"
proof -
  let ?es = "states (data app)"
  from years obtain sd where sd: "map (rankingEntry app) ?es = map Inr sd"
    and sorted: "sortedStatesData app = Inr (js_sort (\<lambda>a b. snd b - snd a) sd)"
    by (rule sortedStatesData_Inr)
  let ?ss = "js_sort (\<lambda>a b. snd b - snd a) sd"
  have rank: "getStateRanking app n = Inr (findIndex (\<lambda>s. fst s = n) ?ss + 1)"
    by (simp add: getStateRanking_def sorted)
  have sd_names: "map fst sd = map fst ?es" using sd by (rule rankingEntry_names)
  have perm: "mset ?ss = mset sd" by (rule mset_js_sort_desc)
  then have set_names: "fst ` set ?ss = fst ` set ?es"
    by (metis sd_names set_map set_mset_mset)
  have len: "length ?ss = length ?es"
    by (metis perm sd_names length_map size_mset)
  have present: "\<exists>r. getStateRanking app n = Inr r \<and> 1 \<le> r \<and> r \<le> int (length ?es)"
    if "n \<in> fst ` set ?es"
  proof -
    from that set_names have "n \<in> fst ` set ?ss" by simp
    then have "\<exists>s \<in> set ?ss. fst s = n" by (auto simp: image_iff)
    then have "0 \<le> findIndex (\<lambda>s. fst s = n) ?ss" by (simp add: findIndex_present)
    moreover have "findIndex (\<lambda>s. fst s = n) ?ss < int (length ?es)"
      using findIndex_bounds [of "\<lambda>s. fst s = n" ?ss] by (simp add: len)
    ultimately show ?thesis by (simp add: rank)
  qed
  have absent: "getStateRanking app n = Inr 0" if "n \<notin> fst ` set ?es"
  proof -
    from that set_names have "n \<notin> fst ` set ?ss" by simp
    then have "\<forall>s \<in> set ?ss. fst s \<noteq> n" by (auto simp: image_iff)
    then have "findIndex (\<lambda>s. fst s = n) ?ss = - 1" by (rule findIndex_absent)
    then show ?thesis by (simp add: rank)
  qed
  from present absent show ?thesis by blast
qed

theorem getStateRanking_range_or_zero_witness:
  "list_all (\<lambda>e. timeseries_at (snd e) (currentYear tie_app) \<noteq> None) (states (data tie_app)) \<and>
   ''A'' \<in> fst ` set (states (data tie_app)) \<and>
   (\<exists>r. getStateRanking tie_app ''A'' = Inr r \<and> 1 \<le> r \<and> r \<le> int (length (states (data tie_app)))) \<and>
   ''Q'' \<notin> fst ` set (states (data tie_app)) \<and> getStateRanking tie_app ''Q'' = Inr 0"
proof -
  have h: "\<forall>e \<in> set (states (data tie_app)). timeseries_at (snd e) (currentYear tie_app) \<noteq> None"
    by (simp add: scenario_defs timeseries_at_def)
  have a: "''A'' \<in> fst ` set (states (data tie_app))" by (simp add: scenario_defs)
  have q: "''Q'' \<notin> fst ` set (states (data tie_app))" by (simp add: scenario_defs)
  from getStateRanking_range_or_zero [OF h, of "''A''"] getStateRanking_range_or_zero [OF h, of "''Q''"]
    h a q show ?thesis unfolding list_all_iff by blast
qed

text \<open>A name that is absent from the scenario gets rank 0, not an error.\<close>

theorem getStateRanking_absent_counterexample:
  "''Z'' \<notin> fst ` set (states (data scenario_app)) \<and> getStateRanking scenario_app ''Z'' = Inr 0"
  by (simp add: getStateRanking_def sortedStatesData_def rankingEntry_def timeseries_at_def
        scenario_defs)

section \<open>Deltas\<close>

text \<open>
  Claim C5. The deltas are differences of the MLI of two years, but the fallback to
  the earliest year is missing in the rankings table. With the years 2018 to 2020 and
  2020 selected there is no year five positions back: the table row of state X
  (1.0 in 2018, 1.1 in 2020) gets the five-year change 0, while \<open>updateInsights\<close> and
  \<open>createTrendInsight\<close> fall back to 2018 and give 0.1.
\<close>

theorem table_five_year_change_is_zero:
  "tableRow early_app early_state =
     Inr \<lparr>row_name = ''X'', row_mli = 1.1, row_surplus = 5000, row_income = 55000,
          row_col = 50000, row_change = 0.1, row_change5yr = 0\<rparr> \<and>
   map_sum id (map (row_change5yr \<circ> snd)) (updateRankingsTable codeunit_compare early_app ''all'')
     = Inr [0] \<and>
   insightEntry early_app early_state = Inr (''X'', 1.1, 0.1) \<and>
   createTrendInsight early_app (snd early_state) =
     Inr \<lparr>fromYear = Some 2018, toYear = Some 2020, trendChange = 0.1, improving = True\<rparr>"
  by (simp add: tableRow_def updateRankingsTable_def sortStates_def sortField_def
      insightEntry_def createTrendInsight_def timeseries_at_def elem_at_def
      early_app_def early_state_def app_with_states_def state_with_mli_def
      metrics_with_mli_def
      slice_first_def slice_last_def enumerate_eq_zip)

section \<open>Properties of the stats banner\<close>

lemma three_bands_length:
  "length (filter (\<lambda>s. 1.05 < (f s :: real)) xs) + length (filter (\<lambda>s. 0.95 \<le> f s \<and> f s \<le> 1.05) xs)
     + length (filter (\<lambda>s. f s < 0.95) xs) = length xs"
  by (induction xs) auto

lemma bannerEntry_values:
  "map (bannerEntry app) ss = map Inr sd \<Longrightarrow>
     map (\<lambda>s. map_option mli (timeseries_at s (currentYear app))) ss = map Some (map snd sd)"
proof (induction ss arbitrary: sd)
  case Nil then show ?case by simp
next
  case (Cons s ss)
  then show ?case by (cases sd) (auto simp: bannerEntry_def split: option.splits)
qed

lemma updateStatsBanner_ok:
  assumes "\<forall>e \<in> set (states (data app)). timeseries_at (snd e) (currentYear app) \<noteq> None"
  shows "\<exists>b. updateStatsBanner app = Inr b"
proof -
  have "\<forall>s \<in> set (map snd (states (data app))). \<exists>y. bannerEntry app s = Inr y"
    using assms by (auto simp: bannerEntry_def split: option.splits)
  from map_throw_ok [OF this] show ?thesis
    by (auto simp: updateStatsBanner_def)
qed

text \<open>
  Claim C10. The banner is computed whenever every state has data for the selected
  year. Its three counts then add up to the number of states, each count is the
  number of states whose MLI of the selected year lies in its band (above 1.05, from
  0.95 to 1.05, below 0.95), and every MLI lies in exactly one of the three bands.
\<close>

theorem stats_banner_partition:
  "((\<forall>e \<in> set (states (data app)). timeseries_at (snd e) (currentYear app) \<noteq> None) \<longrightarrow>
      (\<exists>c. updateStatsBanner app = Inr c)) \<and>
   (updateStatsBanner app = Inr b \<longrightarrow>
     surplusStates b + breakEvenStates b + deficitStates b = length (states (data app)) \<and>
     (\<exists>ms. map (\<lambda>s. map_option mli (timeseries_at s (currentYear app))) (map snd (states (data app)))
             = map Some ms \<and>
           surplusStates b = length (filter (\<lambda>m. 1.05 < m) ms) \<and>
           breakEvenStates b = length (filter (\<lambda>m. 0.95 \<le> m \<and> m \<le> 1.05) ms) \<and>
           deficitStates b = length (filter (\<lambda>m. m < 0.95) ms) \<and>
           (\<forall>m \<in> set ms.
              (1.05 < m \<and> \<not> (0.95 \<le> m \<and> m \<le> 1.05) \<and> \<not> m < 0.95) \<or>
              (\<not> 1.05 < m \<and> (0.95 \<le> m \<and> m \<le> 1.05) \<and> \<not> m < 0.95) \<or>
              (\<not> 1.05 < m \<and> \<not> (0.95 \<le> m \<and> m \<le> 1.05) \<and> m < 0.95))))"
proof (rule conjI; rule impI)
  assume "\<forall>e \<in> set (states (data app)). timeseries_at (snd e) (currentYear app) \<noteq> None"
  then show "\<exists>c. updateStatsBanner app = Inr c" by (rule updateStatsBanner_ok)
next
  assume ok: "updateStatsBanner app = Inr b"
  let ?ss = "map snd (states (data app))"
  from ok obtain sd where sd: "map_throw (bannerEntry app) ?ss = Inr sd"
    and b: "b = \<lparr>surplusStates = length (filter (\<lambda>s. 1.05 < snd s) sd),
               breakEvenStates = length (filter (\<lambda>s. 0.95 \<le> snd s \<and> snd s \<le> 1.05) sd),
               deficitStates = length (filter (\<lambda>s. snd s < 0.95) sd),
               nationalMLI = js_div (Finite (sum_list (map snd sd))) (real (length sd))\<rparr>"
    by (auto simp: updateStatsBanner_def split: sum.splits)
  from sd have m: "map (bannerEntry app) ?ss = map Inr sd" by (simp add: map_throw_Inr_iff)
  then have "length ?ss = length sd" by (metis length_map)
  then have len: "length sd = length (states (data app))" by simp
  have total: "surplusStates b + breakEvenStates b + deficitStates b = length (states (data app))"
    using three_bands_length [of snd sd] by (simp add: b len)
  have vals: "map (\<lambda>s. map_option mli (timeseries_at s (currentYear app))) ?ss = map Some (map snd sd)"
    using m by (rule bannerEntry_values)
  have counts: "surplusStates b = length (filter (\<lambda>m. 1.05 < m) (map snd sd)) \<and>
           breakEvenStates b = length (filter (\<lambda>m. 0.95 \<le> m \<and> m \<le> 1.05) (map snd sd)) \<and>
           deficitStates b = length (filter (\<lambda>m. m < 0.95) (map snd sd))"
    by (simp add: b filter_map comp_def)
  have one: "\<forall>m \<in> set (map snd sd).
              (1.05 < m \<and> \<not> (0.95 \<le> m \<and> m \<le> 1.05) \<and> \<not> m < 0.95) \<or>
              (\<not> 1.05 < m \<and> (0.95 \<le> m \<and> m \<le> 1.05) \<and> \<not> m < 0.95) \<or>
              (\<not> 1.05 < m \<and> \<not> (0.95 \<le> m \<and> m \<le> 1.05) \<and> m < 0.95)"
    by auto
  from total vals counts one
  show "surplusStates b + breakEvenStates b + deficitStates b = length (states (data app)) \<and>
     (\<exists>ms. map (\<lambda>s. map_option mli (timeseries_at s (currentYear app))) (map snd (states (data app)))
             = map Some ms \<and>
           surplusStates b = length (filter (\<lambda>m. 1.05 < m) ms) \<and>
           breakEvenStates b = length (filter (\<lambda>m. 0.95 \<le> m \<and> m \<le> 1.05) ms) \<and>
           deficitStates b = length (filter (\<lambda>m. m < 0.95) ms) \<and>
           (\<forall>m \<in> set ms.
              (1.05 < m \<and> \<not> (0.95 \<le> m \<and> m \<le> 1.05) \<and> \<not> m < 0.95) \<or>
              (\<not> 1.05 < m \<and> (0.95 \<le> m \<and> m \<le> 1.05) \<and> \<not> m < 0.95) \<or>
              (\<not> 1.05 < m \<and> \<not> (0.95 \<le> m \<and> m \<le> 1.05) \<and> m < 0.95)))"
    by blast
qed

theorem stats_banner_partition_witness:
  "list_all (\<lambda>e. timeseries_at (snd e) (currentYear scenario_app) \<noteq> None)
     (states (data scenario_app)) \<and>
   (\<exists>c. updateStatsBanner scenario_app = Inr c) \<and>
   updateStatsBanner scenario_app =
     Inr \<lparr>surplusStates = 1, breakEvenStates = 1, deficitStates = 1, nationalMLI = Finite 1\<rparr> \<and>
   (1::nat) + 1 + 1 = length (states (data scenario_app))"
proof -
  let ?b = "\<lparr>surplusStates = 1, breakEvenStates = 1, deficitStates = 1, nationalMLI = Finite 1\<rparr>"
  have h: "updateStatsBanner scenario_app = Inr ?b"
    by (simp add: updateStatsBanner_def bannerEntry_def timeseries_at_def scenario_defs)
  have d: "\<forall>e \<in> set (states (data scenario_app)).
             timeseries_at (snd e) (currentYear scenario_app) \<noteq> None"
    by (simp add: timeseries_at_def scenario_defs)
  note T = stats_banner_partition [of scenario_app ?b]
  from T [THEN conjunct1] d have t: "\<exists>c. updateStatsBanner scenario_app = Inr c" by blast
  from T [THEN conjunct2] h
  have "surplusStates ?b + breakEvenStates ?b + deficitStates ?b
          = length (states (data scenario_app))" by blast
  then have n: "(1::nat) + 1 + 1 = length (states (data scenario_app))" by simp
  from d have l: "list_all (\<lambda>e. timeseries_at (snd e) (currentYear scenario_app) \<noteq> None)
     (states (data scenario_app))" by (simp only: list_all_iff)
  show ?thesis by (intro conjI) (fact l t h n)+
qed

section \<open>Properties of the table filter\<close>

lemma startsWith_iff: "startsWith s t \<longleftrightarrow> (\<exists>q. s = t @ q)"
  by (induction s t rule: startsWith.induct) auto

lemma js_includes_iff: "js_includes s t \<longleftrightarrow> (\<exists>p q. s = p @ t @ q)"
proof (induction s)
  case Nil then show ?case by auto
next
  case (Cons a s)
  show ?case
  proof
    assume "js_includes (a # s) t"
    then consider "startsWith (a # s) t" | "js_includes s t" by auto
    then show "\<exists>p q. a # s = p @ t @ q"
    proof cases
      case 1
      then obtain q where "a # s = t @ q" by (auto simp: startsWith_iff)
      then have "a # s = [] @ t @ q" by simp
      then show ?thesis by blast
    next
      case 2
      with Cons obtain p q where "s = p @ t @ q" by auto
      then have "a # s = (a # p) @ t @ q" by simp
      then show ?thesis by blast
    qed
  next
    assume "\<exists>p q. a # s = p @ t @ q"
    then obtain p q where pq: "a # s = p @ t @ q" by auto
    show "js_includes (a # s) t"
    proof (cases p)
      case Nil
      with pq have "startsWith (a # s) t" by (auto simp: startsWith_iff)
      then show ?thesis by simp
    next
      case (Cons b p')
      with pq have "s = p' @ t @ q" by simp
      with Cons.IH have "js_includes s t" by blast
      then show ?thesis by simp
    qed
  qed
qed

lemma js_includes_empty: "js_includes s []"
  by (cases s) simp_all

lemma visible_filterTable:
  "visibleRows (filterTable t rows) =
     map (\<lambda>r. r\<lparr>display := []\<rparr>)
       (filter (\<lambda>r. js_includes (toLowerCase (state_cell r)) (toLowerCase t)) rows)"
  by (induction rows) (simp_all add: visibleRows_def filterTable_def Let_def)

text \<open>
  Claim C8. Filtering with the empty string shows every row, and returns the rows
  unchanged when they were all shown; filtering twice with the same term gives the
  same rows as filtering once; a row stays exactly when the lower-cased search term
  occurs in its lower-cased state cell, whatever its other cells hold, so terms that
  differ only in case filter alike; and the remaining rows are a filter of the input,
  in the input's order.
\<close>

theorem filterTable_properties:
  "visibleRows (filterTable [] rows) = map (\<lambda>r. r\<lparr>display := []\<rparr>) rows \<and>
   ((\<forall>r \<in> set rows. display r = []) \<longrightarrow> visibleRows (filterTable [] rows) = rows) \<and>
   visibleRows (filterTable t (visibleRows (filterTable t rows))) = visibleRows (filterTable t rows) \<and>
   visibleRows (filterTable t rows) =
     map (\<lambda>r. r\<lparr>display := []\<rparr>)
       (filter (\<lambda>r. \<exists>p q. toLowerCase (state_cell r) = p @ toLowerCase t @ q) rows) \<and>
   (toLowerCase t = toLowerCase t' \<longrightarrow> filterTable t rows = filterTable t' rows) \<and>
   toLowerCase ''New YORK'' = ''new york''"
proof -
  have empty: "visibleRows (filterTable [] rows) = map (\<lambda>r. r\<lparr>display := []\<rparr>) rows"
    by (simp add: visible_filterTable toLowerCase_def js_includes_empty)
  have "map (\<lambda>r. r\<lparr>display := []\<rparr>) rows = rows" if "\<forall>r \<in> set rows. display r = []"
    using that by (induction rows) auto
  with empty have same: "visibleRows (filterTable [] rows) = rows"
    if "\<forall>r \<in> set rows. display r = []" using that by simp
  have idem: "visibleRows (filterTable t (visibleRows (filterTable t rows))) = visibleRows (filterTable t rows)"
    by (simp add: visible_filterTable filter_map comp_def)
  have sub: "visibleRows (filterTable t rows) =
     map (\<lambda>r. r\<lparr>display := []\<rparr>)
       (filter (\<lambda>r. \<exists>p q. toLowerCase (state_cell r) = p @ toLowerCase t @ q) rows)"
    by (simp add: visible_filterTable js_includes_iff)
  have ci: "filterTable t rows = filterTable t' rows" if "toLowerCase t = toLowerCase t'"
    using that by (simp add: filterTable_def)
  have ex: "toLowerCase ''New YORK'' = ''new york''"
    by code_simp
  from empty same idem sub ci ex show ?thesis by blast
qed

theorem filterTable_properties_witness:
  "map display table_rows = [[], [], []] \<and> visibleRows (filterTable [] table_rows) = table_rows \<and>
   toLowerCase ''b'' = toLowerCase ''B'' \<and> filterTable ''b'' table_rows = filterTable ''B'' table_rows \<and>
   map state_cell (visibleRows (filterTable ''b'' table_rows)) = [''B'']"
proof -
  have h0: "map display table_rows = [[], [], []]"
    by (simp add: table_rows_def renderRows_def tie_rows_def)
  have h1: "\<forall>r \<in> set table_rows. display r = []"
    by (simp add: table_rows_def renderRows_def tie_rows_def)
  have h2: "toLowerCase ''b'' = toLowerCase ''B''"
    by code_simp
  have h3: "map state_cell (visibleRows (filterTable ''b'' table_rows)) = [''B'']"
    by code_simp
  from filterTable_properties [of table_rows "''b''" "''B''"] h0 h1 h2 h3 show ?thesis by blast
qed

section \<open>Properties of the startup\<close>

lemma updateRankingsTable_ok:
  assumes "\<forall>e \<in> set (states (data app)).
             timeseries_at (snd e) (currentYear app) \<noteq> None \<and>
             timeseries_at (snd e) (elem_at (availableYears app) 0) \<noteq> None"
  shows "\<exists>t. updateRankingsTable lc app tab = Inr t"
proof -
  have "\<forall>e \<in> set (states (data app)). \<exists>y. tableRow app e = Inr y"
    using assms by (auto simp: tableRow_def Let_def split: option.splits)
  from map_throw_ok [OF this] show ?thesis
    by (auto simp: updateRankingsTable_def Let_def)
qed

lemma updateInsights_ok:
  assumes "\<forall>e \<in> set (states (data app)).
             timeseries_at (snd e) (currentYear app) \<noteq> None \<and>
             timeseries_at (snd e) (elem_at (availableYears app) 0) \<noteq> None"
  shows "\<exists>i. updateInsights app = Inr i"
proof -
  have "\<forall>e \<in> set (states (data app)). \<exists>y. insightEntry app e = Inr y"
    using assms by (auto simp: insightEntry_def Let_def split: option.splits)
  from map_throw_ok [OF this] show ?thesis
    by (auto simp: updateInsights_def Let_def)
qed

lemma loadMarketData_fields:
  "data (loadMarketData env app) = data app"
  "currentYear (loadMarketData env app) = currentYear app"
  "availableYears (loadMarketData env app) = availableYears app"
  by (simp_all add: loadMarketData_def split: sum.splits)

lemma init_data_failure:
  "mli_data_json env = Inl e \<Longrightarrow>
     init lc env = ErrorSection ''Failed to load data. Please refresh the page.''"
  by (simp add: init_def loadData_def showError_def)

lemma init_error_message:
  "init lc env = ErrorSection msg \<Longrightarrow> msg = ''Failed to load data. Please refresh the page.''"
  by (auto simp: init_def showError_def Let_def split: sum.splits)

lemma init_rendered:
  assumes "init lc env = Rendered vs"
  shows "\<exists>d. mli_data_json env = Inr d"
    and "vs = createMap env
               @ [StatsBannerView, RankingsTableView, InsightsView, StateSelectorsView, LegendView]
               @ createSavingsTimeline env (loadMarketData env (projr (loadData env)))
               @ populateSavingsDistribution (loadMarketData env (projr (loadData env)))"
  using assms
  by (auto simp: init_def showError_def loadData_def Let_def split: sum.splits)

lemma savings_timeline_drawn:
  "loadData env = Inr loaded \<Longrightarrow>
   SavingsTimelineView \<in> set (createSavingsTimeline env (loadMarketData env loaded)) \<longleftrightarrow>
     (\<exists>m. market_divergence_json env = Inr m \<and> savings_timeline m \<noteq> None \<and>
             savingsTimeline_canvas env)"
  by (auto simp: createSavingsTimeline_def loadMarketData_def loadData_def
      split: sum.splits option.splits) metis

lemma savings_distribution_drawn:
  "loadData env = Inr loaded \<Longrightarrow>
   SavingsDistributionView \<in> set (populateSavingsDistribution (loadMarketData env loaded)) \<longleftrightarrow>
     (\<exists>m. market_divergence_json env = Inr m \<and> current_snapshot_2023 m \<noteq> None)"
  by (auto simp: populateSavingsDistribution_def loadMarketData_def loadData_def
      split: sum.splits option.splits) metis

lemma createMap_views: "set (createMap env) \<subseteq> {MapView}"
  by (auto simp: createMap_def)

lemma createSavingsTimeline_views: "set (createSavingsTimeline env app) \<subseteq> {SavingsTimelineView}"
  by (auto simp: createSavingsTimeline_def split: option.splits)

lemma populateSavingsDistribution_views:
  "set (populateSavingsDistribution app) \<subseteq> {SavingsDistributionView}"
  by (auto simp: populateSavingsDistribution_def split: option.splits)

lemma marketData_unread_entries:
  "bannerEntry (app\<lparr>marketData := m\<rparr>) = bannerEntry app"
  "tableRow (app\<lparr>marketData := m\<rparr>) = tableRow app"
  "insightEntry (app\<lparr>marketData := m\<rparr>) = insightEntry app"
  "sortStates lc (app\<lparr>marketData := m\<rparr>) = sortStates lc app"
  by (rule ext, simp add: bannerEntry_def tableRow_def insightEntry_def sortStates_def Let_def
      cong: option.case_cong if_cong)+

lemma marketData_unread:
  "updateStatsBanner (app\<lparr>marketData := m\<rparr>) = updateStatsBanner app"
  "updateRankingsTable lc (app\<lparr>marketData := m\<rparr>) tab = updateRankingsTable lc app tab"
  "updateInsights (app\<lparr>marketData := m\<rparr>) = updateInsights app"
  by (simp_all add: updateStatsBanner_def updateRankingsTable_def updateInsights_def
      marketData_unread_entries cong: sum.case_cong)

lemma init_market_failure:
  assumes "market_divergence_json env = Inl e"
  shows "init lc env =
       init lc (env\<lparr>market_divergence_json :=
                      Inr \<lparr>savings_timeline = None, current_snapshot_2023 = None\<rparr>\<rparr>)"
proof (cases "loadData env")
  case (Inl e')
  then show ?thesis by (simp add: init_def loadData_def split: sum.splits)
next
  case (Inr loaded)
  let ?m = "\<lparr>savings_timeline = None, current_snapshot_2023 = None\<rparr>"
  let ?env = "env\<lparr>market_divergence_json := Inr ?m\<rparr>"
  have l: "loadData ?env = Inr loaded" using Inr by (simp add: loadData_def)
  have none: "marketData loaded = None" using Inr by (auto simp: loadData_def split: sum.splits)
  have a: "loadMarketData env loaded = loaded" using assms by (simp add: loadMarketData_def)
  have b: "loadMarketData ?env loaded = loaded\<lparr>marketData := Some ?m\<rparr>"
    by (simp add: loadMarketData_def)
  have c: "createSavingsTimeline env loaded = []" "populateSavingsDistribution loaded = []"
    "createSavingsTimeline ?env (loaded\<lparr>marketData := Some ?m\<rparr>) = []"
    "populateSavingsDistribution (loaded\<lparr>marketData := Some ?m\<rparr>) = []"
    "createMap ?env = createMap env"
    by (simp_all add: createSavingsTimeline_def populateSavingsDistribution_def createMap_def none)
  show ?thesis
    by (simp add: init_def Inr l a b c marketData_unread cong: sum.case_cong)
qed

lemma init_renders:
  assumes d: "mli_data_json env = Inr d"
    and ok: "\<forall>e \<in> set (states d).
               timeseries_at (snd e) (elem_at (years d) (int (length (years d)) - 1)) \<noteq> None \<and>
               timeseries_at (snd e) (elem_at (years d) 0) \<noteq> None"
  shows "\<exists>vs. init lc env = Rendered vs"
proof -
  obtain loaded where l: "loadData env = Inr loaded" and ld: "data loaded = d"
    and ly: "currentYear loaded = elem_at (years d) (int (length (years d)) - 1)"
    and la: "availableYears loaded = years d"
    using d by (simp add: loadData_def)
  let ?app = "loadMarketData env loaded"
  have hyp: "\<forall>e \<in> set (states (data ?app)).
             timeseries_at (snd e) (currentYear ?app) \<noteq> None \<and>
             timeseries_at (snd e) (elem_at (availableYears ?app) 0) \<noteq> None"
    using ok by (simp add: loadMarketData_fields ld ly la)
  then obtain b where b: "updateStatsBanner ?app = Inr b"
    using updateStatsBanner_ok [of ?app] by blast
  from hyp obtain t where t: "updateRankingsTable lc ?app ''all'' = Inr t"
    using updateRankingsTable_ok [of ?app] by blast
  from hyp obtain i where i: "updateInsights ?app = Inr i"
    using updateInsights_ok [of ?app] by blast
  show ?thesis by (simp add: init_def l b t i Let_def)
qed

lemma updateStatsBanner_throws:
  assumes "\<exists>e \<in> set (states (data app)). timeseries_at (snd e) (currentYear app) = None"
  shows "\<exists>x. updateStatsBanner app = Inl x"
proof -
  from assms obtain e where e: "e \<in> set (states (data app))"
    and n: "timeseries_at (snd e) (currentYear app) = None" by blast
  from n have "bannerEntry app (snd e) = Inl TypeError" by (simp add: bannerEntry_def)
  moreover from e have "snd e \<in> set (map snd (states (data app)))" by simp
  ultimately have "\<exists>s \<in> set (map snd (states (data app))). \<exists>x. bannerEntry app s = Inl x"
    by blast
  then have "\<exists>x. map_throw (bannerEntry app) (map snd (states (data app))) = Inl x"
    by (simp only: map_throw_Inl_iff)
  then show ?thesis by (auto simp: updateStatsBanner_def)
qed

lemma updateRankingsTable_throws:
  assumes "\<exists>e \<in> set (states (data app)).
             timeseries_at (snd e) (currentYear app) = None \<or>
             timeseries_at (snd e) (elem_at (availableYears app) 0) = None"
  shows "\<exists>x. updateRankingsTable lc app tab = Inl x"
proof -
  from assms obtain e where e: "e \<in> set (states (data app))"
    and n: "timeseries_at (snd e) (currentYear app) = None \<or>
            timeseries_at (snd e) (elem_at (availableYears app) 0) = None" by blast
  from n have "tableRow app e = Inl TypeError"
    by (auto simp: tableRow_def split: option.splits)
  with e have "\<exists>e \<in> set (states (data app)). \<exists>x. tableRow app e = Inl x" by blast
  then have "\<exists>x. map_throw (tableRow app) (states (data app)) = Inl x"
    by (simp only: map_throw_Inl_iff)
  then show ?thesis by (auto simp: updateRankingsTable_def)
qed

lemma init_view_throws:
  assumes "loadData env = Inr loaded"
    and "updateStatsBanner (loadMarketData env loaded) = Inl x \<or>
         updateRankingsTable lc (loadMarketData env loaded) ''all'' = Inl x \<or>
         updateInsights (loadMarketData env loaded) = Inl x"
  shows "init lc env = ErrorSection ''Failed to load data. Please refresh the page.''"
  using assms by (auto simp: init_def Let_def showError_def split: sum.splits)

lemma init_missing_year:
  assumes d: "mli_data_json env = Inr d"
    and miss: "\<exists>s \<in> set (states d).
                 timeseries_at (snd s) (elem_at (years d) (int (length (years d)) - 1)) = None \<or>
                 timeseries_at (snd s) (elem_at (years d) 0) = None"
  shows "init lc env = ErrorSection ''Failed to load data. Please refresh the page.''"
proof -
  obtain loaded where l: "loadData env = Inr loaded" and ld: "data loaded = d"
    and ly: "currentYear loaded = elem_at (years d) (int (length (years d)) - 1)"
    and la: "availableYears loaded = years d"
    using d by (simp add: loadData_def)
  let ?app = "loadMarketData env loaded"
  have "\<exists>e \<in> set (states (data ?app)).
             timeseries_at (snd e) (currentYear ?app) = None \<or>
             timeseries_at (snd e) (elem_at (availableYears ?app) 0) = None"
    using miss by (simp add: loadMarketData_fields ld ly la)
  then obtain x where "updateRankingsTable lc ?app ''all'' = Inl x"
    using updateRankingsTable_throws [of ?app lc "''all''"] by blast
  then show ?thesis using init_view_throws [OF l, of x lc] by blast
qed

text \<open>
  Claim C9, as amended. When the dataset fails to load, the main content is the
  static error message, and every error message is that one. A view computation
  that throws also ends in the error message, which is the case whenever a state
  lacks data for the first or the last year. When views are rendered, the dataset
  was loaded and the banner, the table, the insights, the state selectors and the
  legend are all among them; the savings timeline and the savings distribution are
  among them exactly when the market file was loaded and holds their section. A
  failed load of the market file is not an error: the run ends as it does for a
  market file without these sections. A dataset whose states all have data for the
  first and the last year is rendered.
\<close>

theorem init_error_or_core_views:
  "(mli_data_json env = Inl e \<longrightarrow>
      init lc env = ErrorSection ''Failed to load data. Please refresh the page.'') \<and>
   (init lc env = ErrorSection msg \<longrightarrow> msg = ''Failed to load data. Please refresh the page.'') \<and>
   (init lc env = Rendered vs \<longrightarrow>
      (\<exists>d. mli_data_json env = Inr d) \<and>
      set [StatsBannerView, RankingsTableView, InsightsView, StateSelectorsView, LegendView]
        \<subseteq> set vs \<and>
      (SavingsTimelineView \<in> set vs \<longleftrightarrow>
         (\<exists>m. market_divergence_json env = Inr m \<and> savings_timeline m \<noteq> None \<and>
              savingsTimeline_canvas env)) \<and>
      (SavingsDistributionView \<in> set vs \<longleftrightarrow>
         (\<exists>m. market_divergence_json env = Inr m \<and> current_snapshot_2023 m \<noteq> None))) \<and>
   (market_divergence_json env = Inl e' \<longrightarrow>
      init lc env =
        init lc (env\<lparr>market_divergence_json :=
                       Inr \<lparr>savings_timeline = None, current_snapshot_2023 = None\<rparr>\<rparr>)) \<and>
   (mli_data_json env = Inr d \<and>
    (\<forall>s \<in> set (states d).
       timeseries_at (snd s) (elem_at (years d) (int (length (years d)) - 1)) \<noteq> None \<and>
       timeseries_at (snd s) (elem_at (years d) 0) \<noteq> None) \<longrightarrow>
      (\<exists>ws. init lc env = Rendered ws)) \<and>
   (loadData env = Inr loaded \<and>
    (updateStatsBanner (loadMarketData env loaded) = Inl x \<or>
     updateRankingsTable lc (loadMarketData env loaded) ''all'' = Inl x \<or>
     updateInsights (loadMarketData env loaded) = Inl x) \<longrightarrow>
      init lc env = ErrorSection ''Failed to load data. Please refresh the page.'') \<and>
   (mli_data_json env = Inr d \<and>
    (\<exists>s \<in> set (states d).
       timeseries_at (snd s) (elem_at (years d) (int (length (years d)) - 1)) = None \<or>
       timeseries_at (snd s) (elem_at (years d) 0) = None) \<longrightarrow>
      init lc env = ErrorSection ''Failed to load data. Please refresh the page.'')"
proof -
  have rendered: "(\<exists>d. mli_data_json env = Inr d) \<and>
      set [StatsBannerView, RankingsTableView, InsightsView, StateSelectorsView, LegendView]
        \<subseteq> set vs \<and>
      (SavingsTimelineView \<in> set vs \<longleftrightarrow>
         (\<exists>m. market_divergence_json env = Inr m \<and> savings_timeline m \<noteq> None \<and>
              savingsTimeline_canvas env)) \<and>
      (SavingsDistributionView \<in> set vs \<longleftrightarrow>
         (\<exists>m. market_divergence_json env = Inr m \<and> current_snapshot_2023 m \<noteq> None))"
    if r: "init lc env = Rendered vs"
  proof -
    from r obtain d where d: "mli_data_json env = Inr d" by (auto dest: init_rendered(1))
    then obtain loaded where l: "loadData env = Inr loaded" by (simp add: loadData_def)
    let ?app = "loadMarketData env loaded"
    from init_rendered(2) [OF r] l
    have vs: "vs = createMap env
               @ [StatsBannerView, RankingsTableView, InsightsView, StateSelectorsView, LegendView]
               @ createSavingsTimeline env ?app @ populateSavingsDistribution ?app"
      by simp
    have core: "set [StatsBannerView, RankingsTableView, InsightsView, StateSelectorsView, LegendView]
        \<subseteq> set vs" by (subst vs) simp
    have "SavingsTimelineView \<in> set vs \<longleftrightarrow> SavingsTimelineView \<in> set (createSavingsTimeline env ?app)"
      using createMap_views [of env] populateSavingsDistribution_views [of ?app]
      by (subst vs) auto
    then have tl: "SavingsTimelineView \<in> set vs \<longleftrightarrow>
         (\<exists>m. market_divergence_json env = Inr m \<and> savings_timeline m \<noteq> None \<and>
              savingsTimeline_canvas env)"
      by (simp add: savings_timeline_drawn [OF l])
    have "SavingsDistributionView \<in> set vs \<longleftrightarrow>
            SavingsDistributionView \<in> set (populateSavingsDistribution ?app)"
      using createMap_views [of env] createSavingsTimeline_views [of env ?app]
      by (subst vs) auto
    then have ds: "SavingsDistributionView \<in> set vs \<longleftrightarrow>
         (\<exists>m. market_divergence_json env = Inr m \<and> current_snapshot_2023 m \<noteq> None)"
      by (simp add: savings_distribution_drawn [OF l])
    from d core tl ds show ?thesis by blast
  qed
  have c1: "mli_data_json env = Inl e \<longrightarrow>
      init lc env = ErrorSection ''Failed to load data. Please refresh the page.''"
    using init_data_failure [of env e lc] by blast
  have c2: "init lc env = ErrorSection msg \<longrightarrow> msg = ''Failed to load data. Please refresh the page.''"
    using init_error_message [of lc env msg] by blast
  have c3: "init lc env = Rendered vs \<longrightarrow>
      (\<exists>d. mli_data_json env = Inr d) \<and>
      set [StatsBannerView, RankingsTableView, InsightsView, StateSelectorsView, LegendView]
        \<subseteq> set vs \<and>
      (SavingsTimelineView \<in> set vs \<longleftrightarrow>
         (\<exists>m. market_divergence_json env = Inr m \<and> savings_timeline m \<noteq> None \<and>
              savingsTimeline_canvas env)) \<and>
      (SavingsDistributionView \<in> set vs \<longleftrightarrow>
         (\<exists>m. market_divergence_json env = Inr m \<and> current_snapshot_2023 m \<noteq> None))"
    using rendered by (rule impI)
  have c4: "market_divergence_json env = Inl e' \<longrightarrow>
      init lc env =
        init lc (env\<lparr>market_divergence_json :=
                       Inr \<lparr>savings_timeline = None, current_snapshot_2023 = None\<rparr>\<rparr>)"
    using init_market_failure [of env e' lc] by (rule impI)
  have c5: "mli_data_json env = Inr d \<and>
    (\<forall>s \<in> set (states d).
       timeseries_at (snd s) (elem_at (years d) (int (length (years d)) - 1)) \<noteq> None \<and>
       timeseries_at (snd s) (elem_at (years d) 0) \<noteq> None) \<longrightarrow>
      (\<exists>ws. init lc env = Rendered ws)"
    using init_renders [of env d lc] by blast
  have c6: "loadData env = Inr loaded \<and>
    (updateStatsBanner (loadMarketData env loaded) = Inl x \<or>
     updateRankingsTable lc (loadMarketData env loaded) ''all'' = Inl x \<or>
     updateInsights (loadMarketData env loaded) = Inl x) \<longrightarrow>
      init lc env = ErrorSection ''Failed to load data. Please refresh the page.''"
    using init_view_throws [of env loaded x lc] by blast
  have c7: "mli_data_json env = Inr d \<and>
    (\<exists>s \<in> set (states d).
       timeseries_at (snd s) (elem_at (years d) (int (length (years d)) - 1)) = None \<or>
       timeseries_at (snd s) (elem_at (years d) 0) = None) \<longrightarrow>
      init lc env = ErrorSection ''Failed to load data. Please refresh the page.''"
    using init_missing_year [of env d lc] by blast
  show ?thesis by (intro conjI) (fact c1 c2 c3 c4 c5 c6 c7)+
qed

theorem init_error_or_core_views_witness:
  "mli_data_json data_failed_env = Inl (Error ''404'') \<and>
   init codeunit_compare data_failed_env =
     ErrorSection ''Failed to load data. Please refresh the page.'' \<and>
   init codeunit_compare all_loaded_env = Rendered full_view \<and>
   (\<exists>m. market_divergence_json all_loaded_env = Inr m \<and> savings_timeline m \<noteq> None \<and>
        savingsTimeline_canvas all_loaded_env) \<and>
   market_divergence_json market_failed_env = Inl (Error ''404'') \<and>
   init codeunit_compare market_failed_env =
     init codeunit_compare
       (market_failed_env\<lparr>market_divergence_json :=
          Inr \<lparr>savings_timeline = None, current_snapshot_2023 = None\<rparr>\<rparr>) \<and>
   mli_data_json market_failed_env = Inr (data scenario_app) \<and>
   (\<exists>ws. init codeunit_compare market_failed_env = Rendered ws) \<and>
   mli_data_json missing_year_env = Inr missing_year_data \<and>
   (\<exists>loaded. loadData missing_year_env = Inr loaded \<and>
      updateStatsBanner (loadMarketData missing_year_env loaded) = Inl TypeError) \<and>
   (\<exists>s \<in> set (states missing_year_data).
      timeseries_at (snd s)
        (elem_at (years missing_year_data) (int (length (years missing_year_data)) - 1)) = None) \<and>
   init codeunit_compare missing_year_env =
     ErrorSection ''Failed to load data. Please refresh the page.''"
proof -
  let ?msg = "''Failed to load data. Please refresh the page.''"
  have h1: "mli_data_json data_failed_env = Inl (Error ''404'')"
    by (simp add: data_failed_env_def)
  have h2: "init codeunit_compare all_loaded_env = Rendered full_view"
    by (simp add: init_def loadData_def loadMarketData_def updateStatsBanner_def bannerEntry_def
      updateRankingsTable_def tableRow_def updateInsights_def insightEntry_def
      createMap_def createSavingsTimeline_def populateSavingsDistribution_def
      full_view_def timeseries_at_def elem_at_def all_loaded_env_def scenario_defs
      sortStates_def sortField_def Let_def slice_first_def slice_last_def)
  have h3: "market_divergence_json market_failed_env = Inl (Error ''404'')"
    by (simp add: market_failed_env_def)
  have h4: "mli_data_json market_failed_env = Inr (data scenario_app)"
    by (simp add: market_failed_env_def)
  have h5: "\<forall>s \<in> set (states (data scenario_app)).
       timeseries_at (snd s)
         (elem_at (years (data scenario_app)) (int (length (years (data scenario_app))) - 1)) \<noteq> None \<and>
       timeseries_at (snd s) (elem_at (years (data scenario_app)) 0) \<noteq> None"
    by (simp add: timeseries_at_def elem_at_def scenario_defs)
  have h6: "mli_data_json missing_year_env = Inr missing_year_data"
    by (simp add: missing_year_env_def)
  have h7: "\<exists>s \<in> set (states missing_year_data).
      timeseries_at (snd s)
        (elem_at (years missing_year_data) (int (length (years missing_year_data)) - 1)) = None"
    by (simp add: missing_year_data_def timeseries_at_def elem_at_def state_with_mli_def)
  obtain loaded where l: "loadData missing_year_env = Inr loaded"
    and b: "updateStatsBanner (loadMarketData missing_year_env loaded) = Inl TypeError"
    by (simp add: loadData_def loadMarketData_def updateStatsBanner_def bannerEntry_def
        missing_year_env_def missing_year_data_def timeseries_at_def elem_at_def
        state_with_mli_def metrics_with_mli_def)
  then have h8: "\<exists>loaded. loadData missing_year_env = Inr loaded \<and>
      updateStatsBanner (loadMarketData missing_year_env loaded) = Inl TypeError" by blast
  have c1: "init codeunit_compare data_failed_env = ErrorSection ?msg"
    using init_error_or_core_views [of data_failed_env "Error ''404''" codeunit_compare,
        THEN conjunct1] h1 by blast
  have v: "SavingsTimelineView \<in> set full_view" by (simp add: full_view_def)
  have c2: "\<exists>m. market_divergence_json all_loaded_env = Inr m \<and> savings_timeline m \<noteq> None \<and>
              savingsTimeline_canvas all_loaded_env"
    using init_error_or_core_views [of all_loaded_env _ codeunit_compare _ full_view,
        THEN conjunct2, THEN conjunct2, THEN conjunct1] h2 v by blast
  have c3: "init codeunit_compare market_failed_env =
     init codeunit_compare
       (market_failed_env\<lparr>market_divergence_json :=
          Inr \<lparr>savings_timeline = None, current_snapshot_2023 = None\<rparr>\<rparr>)"
    using init_error_or_core_views [of market_failed_env _ codeunit_compare _ _ "Error ''404''",
        THEN conjunct2, THEN conjunct2, THEN conjunct2, THEN conjunct1] h3 by blast
  have c4: "\<exists>ws. init codeunit_compare market_failed_env = Rendered ws"
    using init_error_or_core_views [of market_failed_env _ codeunit_compare _ _ _
        "data scenario_app",
        THEN conjunct2, THEN conjunct2, THEN conjunct2, THEN conjunct2, THEN conjunct1] h4 h5
    by blast
  have c5: "init codeunit_compare missing_year_env = ErrorSection ?msg"
    using init_error_or_core_views [of missing_year_env _ codeunit_compare _ _ _ _ loaded
        TypeError,
        THEN conjunct2, THEN conjunct2, THEN conjunct2, THEN conjunct2, THEN conjunct2,
        THEN conjunct1] l b by blast
  have c6: "init codeunit_compare missing_year_env = ErrorSection ?msg"
    using init_error_or_core_views [of missing_year_env _ codeunit_compare _ _ _
        missing_year_data,
        THEN conjunct2, THEN conjunct2, THEN conjunct2, THEN conjunct2, THEN conjunct2,
        THEN conjunct2] h6 h7 by blast
  show ?thesis
    by (intro conjI) (fact h1 c1 h2 c2 h3 c3 h4 c4 h6 h8 h7 c6)+
qed

text \<open>
  There is a partial-success path: the market file fails to load, no error message
  is shown, and the page renders without the savings timeline and distribution.
\<close>

theorem init_market_failure_counterexample:
  "market_divergence_json market_failed_env = Inl (Error ''404'') \<and>
   init codeunit_compare market_failed_env =
     Rendered [MapView, StatsBannerView, RankingsTableView, InsightsView, StateSelectorsView,
               LegendView] \<and>
   init codeunit_compare market_failed_env \<noteq> Rendered full_view \<and>
   init codeunit_compare market_failed_env \<noteq> showError ''Failed to load data. Please refresh the page.''"
  by (simp add: init_def loadData_def loadMarketData_def updateStatsBanner_def bannerEntry_def
      updateRankingsTable_def tableRow_def updateInsights_def insightEntry_def
      createMap_def createSavingsTimeline_def populateSavingsDistribution_def showError_def
      full_view_def timeseries_at_def elem_at_def market_failed_env_def scenario_defs
      sortStates_def sortField_def Let_def slice_first_def slice_last_def)

end
